theory Spec2Isabelle
  imports Main
begin

section \<open>JavaScript values\<close>

text \<open>
  The values that travel in messages, payloads and results. Numbers are the integers;
  an \<open>Error\<close> object is its message (its name is always \<open>Error\<close>); an object is its
  list of own string-keyed properties.
\<close>

datatype jsval =
    JUndefined
  | JNull
  | JBool bool
  | JNum int
  | JStr string
  | JError string
  | JArr "jsval list"
  | JObj "(string \<times> jsval) list"

text \<open>What a JavaScript call can throw.\<close>

datatype thrown = TypeError | SyntaxError | Error string

text \<open>Truthiness, and the operators \<open>a || b\<close> and \<open>a && b\<close>.\<close>

fun truthy :: "jsval \<Rightarrow> bool" where
  "truthy JUndefined = False"
| "truthy JNull = False"
| "truthy (JBool b) = b"
| "truthy (JNum n) = (n \<noteq> 0)"
| "truthy (JStr s) = (s \<noteq> [])"
| "truthy (JError m) = True"
| "truthy (JArr xs) = True"
| "truthy (JObj kvs) = True"

definition js_or :: "jsval \<Rightarrow> jsval \<Rightarrow> jsval" where
  "js_or a b = (if truthy a then a else b)"

definition js_and :: "jsval \<Rightarrow> jsval \<Rightarrow> jsval" where
  "js_and a b = (if truthy a then b else a)"

text \<open>\<open>String(v)\<close>: decimal numerals, \<open>Error.prototype.toString\<close>, \<open>Array.prototype.join\<close>.\<close>

definition digit_char :: "nat \<Rightarrow> char" where
  "digit_char d = ''0123456789'' ! (d mod 10)"

function string_of_nat :: "nat \<Rightarrow> string" where
  "string_of_nat n =
     (if n < 10 then [digit_char n] else string_of_nat (n div 10) @ [digit_char (n mod 10)])"
  by pat_completeness auto
termination
  by (relation "measure id") auto

definition string_of_int :: "int \<Rightarrow> string" where
  "string_of_int i = (if i < 0 then CHR ''-'' # string_of_nat (nat (- i)) else string_of_nat (nat i))"

fun join_comma :: "string list \<Rightarrow> string" where
  "join_comma [] = []"
| "join_comma [s] = s"
| "join_comma (s # t # ss) = s @ '','' @ join_comma (t # ss)"

fun js_to_string :: "jsval \<Rightarrow> string" where
  "js_to_string JUndefined = ''undefined''"
| "js_to_string JNull = ''null''"
| "js_to_string (JBool b) = (if b then ''true'' else ''false'')"
| "js_to_string (JNum n) = string_of_int n"
| "js_to_string (JStr s) = s"
| "js_to_string (JError m) = (if m = [] then ''Error'' else ''Error: '' @ m)"
| "js_to_string (JArr xs) =
     join_comma (map (\<lambda>x. if x = JUndefined \<or> x = JNull then [] else js_to_string x) xs)"
| "js_to_string (JObj kvs) = ''[object Object]''"

text \<open>
  \<open>new Error(v)\<close>: the message is \<open>String(v)\<close>, and is empty when \<open>v\<close> is
  \<open>undefined\<close>.
\<close>

definition new_Error :: "jsval \<Rightarrow> jsval" where
  "new_Error v = JError (if v = JUndefined then [] else js_to_string v)"

text \<open>
  \<open>v[k]\<close> for the keys the protocol reads (\<open>sentinel\<close>, \<open>cmd\<close>, \<open>payload\<close>,
  \<open>name\<close>, \<open>acceptsChannel\<close>, \<open>code\<close>, \<open>data\<close>, \<open>requestId\<close>, \<open>origin\<close>):
  reading a property of \<open>null\<close> or \<open>undefined\<close> throws, an object answers with its own
  property, an \<open>Error\<close> has \<open>message\<close> and \<open>name\<close>, and no primitive or array has
  any of these keys.
\<close>

fun js_prop :: "jsval \<Rightarrow> string \<Rightarrow> jsval" where
  "js_prop (JObj kvs) k = (case map_of kvs k of None \<Rightarrow> JUndefined | Some v \<Rightarrow> v)"
| "js_prop (JError m) k =
     (if k = ''message'' then JStr m else if k = ''name'' then JStr ''Error'' else JUndefined)"
| "js_prop v k = JUndefined"

definition js_get :: "jsval \<Rightarrow> string \<Rightarrow> thrown + jsval" where
  "js_get v k = (if v = JUndefined \<or> v = JNull then Inl TypeError else Inr (js_prop v k))"

text \<open>
  \<open>v == s\<close> for a string \<open>s\<close> (loose equality): a string is compared as it is, a
  number or boolean with the number the string denotes, an object with its string
  form; \<open>null\<close> and \<open>undefined\<close> equal no string. The numerals a string can denote
  are read as decimal integers, with white space around them and the empty string as 0.
\<close>

definition is_ws :: "char \<Rightarrow> bool" where
  "is_ws c = (c = CHR '' '' \<or> c = CHR 0x09 \<or> c = CHR 0x0A \<or> c = CHR 0x0D)"

definition digit_val :: "char \<Rightarrow> nat option" where
  "digit_val c = (let n = of_char c :: nat in if 48 \<le> n \<and> n \<le> 57 then Some (n - 48) else None)"

fun digits_val :: "nat \<Rightarrow> string \<Rightarrow> nat option" where
  "digits_val acc [] = Some acc"
| "digits_val acc (c # cs) =
     (case digit_val c of None \<Rightarrow> None | Some d \<Rightarrow> digits_val (10 * acc + d) cs)"

definition trim_ws :: "string \<Rightarrow> string" where
  "trim_ws s = rev (dropWhile is_ws (rev (dropWhile is_ws s)))"

definition string_to_int :: "string \<Rightarrow> int option" where
  "string_to_int s =
     (case trim_ws s of
        [] \<Rightarrow> Some 0
      | c # cs \<Rightarrow>
          if c = CHR ''-'' \<and> cs \<noteq> [] then map_option (\<lambda>n. - int n) (digits_val 0 cs)
          else if c = CHR ''+'' \<and> cs \<noteq> [] then map_option int (digits_val 0 cs)
          else if c = CHR ''-'' \<or> c = CHR ''+'' then None
          else map_option int (digits_val 0 (c # cs)))"

fun js_eq_str :: "jsval \<Rightarrow> string \<Rightarrow> bool" where
  "js_eq_str JUndefined s = False"
| "js_eq_str JNull s = False"
| "js_eq_str (JBool b) s = (string_to_int s = Some (if b then 1 else 0))"
| "js_eq_str (JNum n) s = (string_to_int s = Some n)"
| "js_eq_str (JStr t) s = (t = s)"
| "js_eq_str v s = (js_to_string v = s)"

section \<open>Activity results (activity-types.js)\<close>

datatype ActivityMode = IFRAME | POPUP | REDIRECT

text \<open>The result codes are the strings \<open>ok\<close>, \<open>canceled\<close> and \<open>failed\<close>.\<close>

definition OK :: string where "OK = ''ok''"
definition CANCELED :: string where "CANCELED = ''canceled''"
definition FAILED :: string where "FAILED = ''failed''"

record ActivityResult =
  code :: jsval
  data :: jsval
  mode :: ActivityMode
  origin :: jsval
  originVerified :: bool
  secureChannel :: bool
  ok :: bool
  error :: jsval

text \<open>
  The constructor. \<open>new Error(String(data) || '')\<close>: the argument is always a string,
  so the message is that string.
\<close>

definition new_ActivityResult ::
  "jsval \<Rightarrow> jsval \<Rightarrow> ActivityMode \<Rightarrow> jsval \<Rightarrow> bool \<Rightarrow> bool \<Rightarrow> ActivityResult" where
  "new_ActivityResult c d m orig verified secure =
     \<lparr> code = c,
       data = (if js_eq_str c OK then d else JNull),
       mode = m,
       origin = orig,
       originVerified = verified,
       secureChannel = secure,
       ok = js_eq_str c OK,
       error = (if js_eq_str c FAILED
                then new_Error (js_or (JStr (js_to_string d)) (JStr []))
                else JNull) \<rparr>"

fun is_Error :: "jsval \<Rightarrow> bool" where
  "is_Error (JError m) = True"
| "is_Error v = False"

section \<open>The environment\<close>

type_synonym win = nat
type_synonym portid = nat

text \<open>
  The functions of \<open>utils.js\<close> that the code calls and whose source is not part of
  the repository's files are parameters of the model.
\<close>

record Utils =
  isIeBrowser :: bool
  isEdgeBrowser :: bool
  getOriginFromUrl :: "string \<Rightarrow> string"
  getQueryParam :: "string \<Rightarrow> string \<Rightarrow> string option"
  removeQueryParam :: "string \<Rightarrow> string \<Rightarrow> string option"
  removeFragment :: "string \<Rightarrow> string"
  addFragmentParam :: "string \<Rightarrow> string \<Rightarrow> string \<Rightarrow> string"
  serializeRequest :: "string \<Rightarrow> string \<Rightarrow> jsval \<Rightarrow> string"

text \<open>What \<open>win.open\<close> does: it returns a window, returns \<open>null\<close>, or throws.\<close>

datatype open_outcome = OpenReturns "win option" | OpenThrows

text \<open>
  The window \<open>win\<close> as the code reads it: its location, its referrer, whether it has
  \<open>MessageChannel\<close> and \<open>history.replaceState\<close>, what \<open>open\<close> answers for a url
  and a target, what \<open>JSON.parse\<close> answers (\<open>None\<close> when it throws), and the feature
  string that \<open>buildFeatures_\<close> computes from the screen's metrics.
\<close>

record Window =
  locationHref :: string
  locationHash :: string
  referrer :: string
  hasMessageChannel :: bool
  hasReplaceState :: bool
  openWindow :: "string \<Rightarrow> string \<Rightarrow> open_outcome"
  jsonParse :: "string \<Rightarrow> jsval option"
  featuresStr :: string

text \<open>The callbacks a messenger can hold: the port's own command handler, or a caller's.\<close>

datatype callback = PortHandleCommand | Callback nat

text \<open>The timer callbacks of the port: \<open>() => this.check_()\<close> and the delayed cancel.\<close>

datatype task = CheckTask | CancelTask

text \<open>What the code does to the world outside, in the order it does it.\<close>

datatype effect =
    AddMessageListener
  | RemoveMessageListener
  | PortPostMessage portid jsval "portid list"
  | WindowPostMessage win jsval string "portid list"
  | PortClose portid
  | OnCommand callback jsval jsval
  | OnCustomMessage callback jsval
  | ClearInterval nat
  | WindowOpen string string "string option"
  | WindowClose win
  | ReplaceState string

text \<open>
  The mutable world: the effects so far, the next fresh identity (of an endpoint, a
  promise or a timer), the clock in milliseconds, the pending timeouts (identity, due
  time, callback), the running intervals (identity, next due time), the windows
  that report \<open>closed\<close>, and what the code has set on members of the runtime's
  \<open>Object.prototype\<close> (the member's name, its \<open>port1\<close> and its \<open>port2\<close>).
\<close>

record world =
  utils :: Utils
  window :: Window
  trace :: "effect list"
  nextId :: nat
  now :: nat
  timeouts :: "(nat \<times> nat \<times> task) list"
  intervals :: "(nat \<times> nat) list"
  closedWins :: "win list"
  memberPorts :: "(string \<times> portid option \<times> portid option) list"

definition emit :: "effect \<Rightarrow> world \<Rightarrow> world" where
  "emit e w = w\<lparr>trace := trace w @ [e]\<rparr>"

text \<open>\<open>new MessageChannel()\<close>: two fresh endpoints.\<close>

definition new_MessageChannel :: "world \<Rightarrow> portid \<times> portid \<times> world" where
  "new_MessageChannel w = (nextId w, Suc (nextId w), w\<lparr>nextId := nextId w + 2\<rparr>)"

text \<open>\<open>closePort\<close>: a failure of \<open>port.close()\<close> is swallowed.\<close>

definition closePort :: "portid \<Rightarrow> world \<Rightarrow> world" where
  "closePort p w = emit (PortClose p) w"

section \<open>The messenger (messenger.js)\<close>

definition SENTINEL :: string where
  "SENTINEL = ''__ACTIVITIES__''"

text \<open>
  The peer: a window, or a function that yields one (or \<open>null\<close>); the function's
  answer is taken as fixed for the session.
\<close>

datatype target_ref = TargetWindow win | TargetCallback "win option"

text \<open>
  A channel holder: its two endpoints, the identity of its promise and what the promise
  has been resolved with (\<open>None\<close> while it is pending; the resolver settles it once).
\<close>

record ChannelHolder =
  port1 :: "portid option"
  port2 :: "portid option"
  promise :: nat
  settled :: "portid option option"

record Messenger =
  targetOrCallback :: target_ref
  targetOrigin :: "string option"
  requireTarget :: bool
  target :: "win option"
  acceptsChannel :: jsval
  port :: "portid option"
  onCommand :: "callback option"
  onCustomMessage :: "callback option"
  channels :: "(string \<times> ChannelHolder) list option"

record MessageEvent =
  ev_source :: "win option"
  ev_data :: jsval
  ev_origin :: string
  ev_ports :: "portid list"

definition new_Messenger :: "target_ref \<Rightarrow> string option \<Rightarrow> bool \<Rightarrow> Messenger" where
  "new_Messenger targetOrCb orig req =
     \<lparr> targetOrCallback = targetOrCb, targetOrigin = orig, requireTarget = req,
       target = None, acceptsChannel = JBool False, port = None, onCommand = None,
       onCustomMessage = None, channels = None \<rparr>"

definition Messenger_connect ::
  "world \<times> Messenger \<Rightarrow> callback \<Rightarrow> (thrown + unit) \<times> world \<times> Messenger" where
  "Messenger_connect s cb =
     (case s of (w, m) \<Rightarrow>
        if onCommand m \<noteq> None then (Inl (Error ''already connected''), w, m)
        else (Inr (), emit AddMessageListener w, m\<lparr>onCommand := Some cb\<rparr>))"

fun close_channels :: "(string \<times> ChannelHolder) list \<Rightarrow> world \<Rightarrow> world" where
  "close_channels [] w = w"
| "close_channels ((k, h) # chs) w =
     (let w1 = (case port1 h of Some p \<Rightarrow> closePort p w | None \<Rightarrow> w);
          w2 = (case port2 h of Some p \<Rightarrow> closePort p w1 | None \<Rightarrow> w1)
      in close_channels chs w2)"

definition Messenger_disconnect :: "world \<times> Messenger \<Rightarrow> world \<times> Messenger" where
  "Messenger_disconnect s =
     (case s of (w, m) \<Rightarrow>
        if onCommand m \<noteq> None then
          (let m1 = m\<lparr>onCommand := None\<rparr>;
               w1 = (case port m1 of Some p \<Rightarrow> closePort p w | None \<Rightarrow> w);
               m2 = m1\<lparr>port := None\<rparr>;
               w2 = emit RemoveMessageListener w1
           in case channels m2 of
                Some chs \<Rightarrow> (close_channels chs w2, m2\<lparr>channels := None\<rparr>)
              | None \<Rightarrow> (w2, m2))
        else (w, m))"

definition isConnected :: "Messenger \<Rightarrow> bool" where
  "isConnected m = (targetOrigin m \<noteq> None)"

definition getOptionalTarget :: "Messenger \<Rightarrow> win option \<times> Messenger" where
  "getOptionalTarget m =
     (let m' = (if onCommand m \<noteq> None \<and> target m = None
                then m\<lparr>target := (case targetOrCallback m of
                                      TargetCallback r \<Rightarrow> r
                                    | TargetWindow x \<Rightarrow> Some x)\<rparr>
                else m)
      in (target m', m'))"

definition getTarget :: "Messenger \<Rightarrow> (thrown + win) \<times> Messenger" where
  "getTarget m =
     (case getOptionalTarget m of
        (None, m') \<Rightarrow> (Inl (Error ''not connected''), m')
      | (Some t, m') \<Rightarrow> (Inr t, m'))"

definition getTargetOrigin :: "Messenger \<Rightarrow> thrown + string" where
  "getTargetOrigin m =
     (case targetOrigin m of None \<Rightarrow> Inl (Error ''not connected'') | Some orig \<Rightarrow> Inr orig)"

definition envelope :: "string \<Rightarrow> jsval \<Rightarrow> jsval" where
  "envelope cmd payload =
     JObj [(''sentinel'', JStr SENTINEL), (''cmd'', JStr cmd), (''payload'', js_or payload JNull)]"

definition sendCommand ::
  "world \<times> Messenger \<Rightarrow> string \<Rightarrow> jsval \<Rightarrow> portid list \<Rightarrow> (thrown + unit) \<times> world \<times> Messenger" where
  "sendCommand s cmd payload transfer =
     (case s of (w, m) \<Rightarrow>
        case port m of
          Some p \<Rightarrow> (Inr (), emit (PortPostMessage p (envelope cmd payload) transfer) w, m)
        | None \<Rightarrow>
            (case getTarget m of
               (Inl e, m') \<Rightarrow> (Inl e, w, m')
             | (Inr t, m') \<Rightarrow>
                 (case (if cmd = ''connect''
                        then Inr (case targetOrigin m' of Some orig \<Rightarrow> orig | None \<Rightarrow> ''*'')
                        else getTargetOrigin m') of
                    Inl e \<Rightarrow> (Inl e, w, m')
                  | Inr orig \<Rightarrow>
                      (Inr (), emit (WindowPostMessage t (envelope cmd payload) orig transfer) w, m'))))"

definition switchToChannel :: "world \<times> Messenger \<Rightarrow> portid \<Rightarrow> world \<times> Messenger" where
  "switchToChannel s p =
     (case s of (w, m) \<Rightarrow>
        ((case port m of Some q \<Rightarrow> closePort q w | None \<Rightarrow> w), m\<lparr>port := Some p\<rparr>))"

definition sendConnectCommand :: "world \<times> Messenger \<Rightarrow> (thrown + unit) \<times> world \<times> Messenger" where
  "sendConnectCommand s =
     (case s of (w, m) \<Rightarrow>
        sendCommand (w, m) ''connect''
          (JObj [(''acceptsChannel'', JBool (isIeBrowser (utils w) \<or> isEdgeBrowser (utils w)))]) [])"

definition sendStartCommand ::
  "world \<times> Messenger \<Rightarrow> jsval \<Rightarrow> (thrown + unit) \<times> world \<times> Messenger" where
  "sendStartCommand s args =
     (case s of (w, m) \<Rightarrow>
        if truthy (acceptsChannel m) \<and> hasMessageChannel (window w) then
          (case new_MessageChannel w of (p1, p2, w1) \<Rightarrow>
             (case sendCommand (w1, m) ''start'' args [p2] of
                (Inl e, s') \<Rightarrow> (Inl e, s')
              | (Inr u, s') \<Rightarrow> (Inr (), switchToChannel s' p1)))
        else sendCommand (w, m) ''start'' args [])"

definition customMessage :: "world \<times> Messenger \<Rightarrow> jsval \<Rightarrow> (thrown + unit) \<times> world \<times> Messenger" where
  "customMessage s payload = sendCommand s ''msg'' payload []"

definition Messenger_onCustomMessage :: "Messenger \<Rightarrow> callback \<Rightarrow> Messenger" where
  "Messenger_onCustomMessage m cb = m\<lparr>onCustomMessage := Some cb\<rparr>"

text \<open>
  Sub-channels. \<open>channels_\<close> is keyed by the string form of the name; a property
  of the holder is changed in place, so the changed holder is stored back under its key.
\<close>

fun put_channel ::
  "string \<Rightarrow> ChannelHolder \<Rightarrow> (string \<times> ChannelHolder) list \<Rightarrow> (string \<times> ChannelHolder) list" where
  "put_channel k h [] = [(k, h)]"
| "put_channel k h ((k', h') # chs) =
     (if k' = k then (k, h) # chs else (k', h') # put_channel k h chs)"

definition set_channel :: "Messenger \<Rightarrow> string \<Rightarrow> ChannelHolder \<Rightarrow> Messenger" where
  "set_channel m k h =
     m\<lparr>channels := Some (put_channel k h (case channels m of None \<Rightarrow> [] | Some chs \<Rightarrow> chs))\<rparr>"

text \<open>
  \<open>channels_\<close> is the plain object \<open>{}\<close>, so \<open>this.channels_[name]\<close> also finds what
  every object inherits from \<open>Object.prototype\<close> when the table has no entry of its own
  under the name. These are the inherited members in a browser. Each of them is an object
  of the runtime (a function, or for \<open>__proto__\<close> the prototype), the same for every
  messenger, and not a holder: it has no \<open>resolver\<close> and no \<open>promise\<close>, and its \<open>port1\<close>
  and \<open>port2\<close> are what the code has set on it. What the code sets on the prototype
  itself stays with the name \<open>__proto__\<close>; it is not followed into the objects that
  inherit from the prototype.
\<close>

definition Object_prototype_members :: "string list" where
  "Object_prototype_members =
     [''constructor'', ''__defineGetter__'', ''__defineSetter__'', ''hasOwnProperty'',
      ''__lookupGetter__'', ''__lookupSetter__'', ''isPrototypeOf'', ''propertyIsEnumerable'',
      ''toString'', ''valueOf'', ''__proto__'', ''toLocaleString'']"

datatype channel_obj = Holder ChannelHolder | Member string

definition member_ports :: "world \<Rightarrow> string \<Rightarrow> portid option \<times> portid option" where
  "member_ports w k = (case map_of (memberPorts w) k of Some ps \<Rightarrow> ps | None \<Rightarrow> (None, None))"

definition set_member_ports :: "string \<Rightarrow> portid option \<times> portid option \<Rightarrow> world \<Rightarrow> world" where
  "set_member_ports k ps w =
     w\<lparr>memberPorts := (k, ps) # filter (\<lambda>e. fst e \<noteq> k) (memberPorts w)\<rparr>"

text \<open>
  \<open>getChannelObj_\<close>: the table's own entry; or the inherited member, which is truthy, so
  that no holder is made; or a new holder, stored under the name.
\<close>

definition getChannelObj ::
  "world \<times> Messenger \<Rightarrow> string \<Rightarrow> channel_obj \<times> world \<times> Messenger" where
  "getChannelObj s name =
     (case s of (w, m) \<Rightarrow>
        (let chs = (case channels m of None \<Rightarrow> [] | Some c \<Rightarrow> c) in
         case map_of chs name of
           Some h \<Rightarrow> (Holder h, w, m\<lparr>channels := Some chs\<rparr>)
         | None \<Rightarrow>
             if name \<in> set Object_prototype_members
             then (Member name, w, m\<lparr>channels := Some chs\<rparr>)
             else
               (let h = \<lparr> port1 = None, port2 = None, promise = nextId w, settled = None \<rparr>
                in (Holder h, w\<lparr>nextId := Suc (nextId w)\<rparr>,
                    m\<lparr>channels := Some (put_channel name h chs)\<rparr>))))"

text \<open>\<open>channelObj.resolver(port)\<close>: settles the holder's promise if it is pending.\<close>

definition resolver :: "ChannelHolder \<Rightarrow> portid option \<Rightarrow> ChannelHolder" where
  "resolver h p = (if settled h = None then h\<lparr>settled := Some p\<rparr> else h)"

text \<open>
  \<open>startChannel\<close> returns \<open>channelObj.promise\<close>: a holder's promise, or \<open>undefined\<close>
  (\<open>None\<close>) for an inherited member. On a member without \<open>port1\<close> the two endpoints are
  set on the member, and the call of its \<open>resolver\<close>, which is \<open>undefined\<close>, throws.
\<close>

definition startChannel ::
  "world \<times> Messenger \<Rightarrow> jsval \<Rightarrow> (thrown + nat option) \<times> world \<times> Messenger" where
  "startChannel s opt_name =
     (let name = js_or opt_name (JStr []); key = js_to_string name in
      case getChannelObj s key of (obj, w1, m1) \<Rightarrow>
        (case obj of
           Holder h \<Rightarrow>
             if port1 h = None \<and> \<not> hasMessageChannel (window w1) then (Inl TypeError, w1, m1)
             else
               (case (if port1 h = None
                      then (case new_MessageChannel w1 of (p1, p2, w2) \<Rightarrow>
                              (resolver (h\<lparr>port1 := Some p1, port2 := Some p2\<rparr>) (Some p1), w2))
                      else (h, w1)) of
                  (h2, w2) \<Rightarrow>
                    (case port2 h2 of
                       Some p2 \<Rightarrow>
                         (case sendCommand (w2, set_channel m1 key h2) ''cnset''
                                 (JObj [(''name'', name)]) [p2] of
                            (Inl e, s') \<Rightarrow> (Inl e, s')
                          | (Inr u, w3, m3) \<Rightarrow>
                              (Inr (Some (promise h2)), w3,
                               set_channel m3 key (h2\<lparr>port2 := None\<rparr>)))
                     | None \<Rightarrow> (Inr (Some (promise h2)), w2, set_channel m1 key h2)))
         | Member k \<Rightarrow>
             (case fst (member_ports w1 k) of
                None \<Rightarrow>
                  if \<not> hasMessageChannel (window w1) then (Inl TypeError, w1, m1)
                  else
                    (case new_MessageChannel w1 of (p1, p2, w2) \<Rightarrow>
                       (Inl TypeError, set_member_ports k (Some p1, Some p2) w2, m1))
              | Some q1 \<Rightarrow>
                  (case snd (member_ports w1 k) of
                     Some q2 \<Rightarrow>
                       (case sendCommand (w1, m1) ''cnset'' (JObj [(''name'', name)]) [q2] of
                          (Inl e, s') \<Rightarrow> (Inl e, s')
                        | (Inr u, w3, m3) \<Rightarrow>
                            (Inr None, set_member_ports k (Some q1, None) w3, m3))
                   | None \<Rightarrow> (Inr None, w1, m1)))))"

definition askChannel ::
  "world \<times> Messenger \<Rightarrow> jsval \<Rightarrow> (thrown + nat option) \<times> world \<times> Messenger" where
  "askChannel s opt_name =
     (let name = js_or opt_name (JStr []); key = js_to_string name in
      case getChannelObj s key of (obj, w1, m1) \<Rightarrow>
        (case obj of
           Holder h \<Rightarrow>
             if port1 h = None then
               (case sendCommand (w1, m1) ''cnget'' (JObj [(''name'', name)]) [] of
                  (Inl e, s') \<Rightarrow> (Inl e, s')
                | (Inr u, s') \<Rightarrow> (Inr (Some (promise h)), s'))
             else (Inr (Some (promise h)), w1, m1)
         | Member k \<Rightarrow>
             if fst (member_ports w1 k) = None then
               (case sendCommand (w1, m1) ''cnget'' (JObj [(''name'', name)]) [] of
                  (Inl e, s') \<Rightarrow> (Inl e, s')
                | (Inr u, s') \<Rightarrow> (Inr None, s'))
             else (Inr None, w1, m1)))"

text \<open>
  \<open>receiveChannel_\<close>: \<open>port\<close> is \<open>undefined\<close> (\<open>None\<close>) when the message carried no
  endpoint. On an inherited member the endpoint is set, and calling the \<open>resolver\<close> throws.
\<close>

definition receiveChannel ::
  "world \<times> Messenger \<Rightarrow> jsval \<Rightarrow> portid option \<Rightarrow> (thrown + unit) \<times> world \<times> Messenger" where
  "receiveChannel s name p =
     (let key = js_to_string name in
      case getChannelObj s key of (obj, w1, m1) \<Rightarrow>
        (case obj of
           Holder h \<Rightarrow> (Inr (), w1, set_channel m1 key (resolver (h\<lparr>port1 := p\<rparr>) p))
         | Member k \<Rightarrow>
             (Inl TypeError, set_member_ports k (p, snd (member_ports w1 k)) w1, m1)))"

text \<open>\<open>this.onCommand_(cmd, payload)\<close>: calling \<open>null\<close> throws.\<close>

definition call_onCommand ::
  "world \<times> Messenger \<Rightarrow> jsval \<Rightarrow> jsval \<Rightarrow> (thrown + unit) \<times> world \<times> Messenger" where
  "call_onCommand s cmd payload =
     (case s of (w, m) \<Rightarrow>
        case onCommand m of
          None \<Rightarrow> (Inl TypeError, w, m)
        | Some cb \<Rightarrow> (Inr (), emit (OnCommand cb cmd payload) w, m))"

definition Messenger_handleCommand ::
  "world \<times> Messenger \<Rightarrow> jsval \<Rightarrow> jsval \<Rightarrow> MessageEvent \<Rightarrow> (thrown + unit) \<times> world \<times> Messenger" where
  "Messenger_handleCommand s cmd payload event =
     (case s of (w, m) \<Rightarrow>
        if js_eq_str cmd ''connect'' then
          (let w1 = (case port m of Some p \<Rightarrow> closePort p w | None \<Rightarrow> w);
               m1 = m\<lparr>port := None\<rparr>;
               m2 = m1\<lparr>acceptsChannel :=
                         js_or (js_and payload (js_prop payload ''acceptsChannel'')) (JBool False)\<rparr>
           in call_onCommand (w1, m2) cmd payload)
        else if js_eq_str cmd ''start'' then
          call_onCommand
            (case ev_ports event of p # ps \<Rightarrow> switchToChannel (w, m) p | [] \<Rightarrow> (w, m))
            cmd payload
        else if js_eq_str cmd ''msg'' then
          (case onCustomMessage m of
             Some cb \<Rightarrow>
               if payload \<noteq> JNull \<and> payload \<noteq> JUndefined
               then (Inr (), emit (OnCustomMessage cb payload) w, m)
               else (Inr (), w, m)
           | None \<Rightarrow> (Inr (), w, m))
        else if js_eq_str cmd ''cnget'' then
          (case js_get payload ''name'' of
             Inl e \<Rightarrow> (Inl e, w, m)
           | Inr name \<Rightarrow>
               (case startChannel (w, m) name of
                  (Inl e, s') \<Rightarrow> (Inl e, s')
                | (Inr pr, s') \<Rightarrow> (Inr (), s')))
        else if js_eq_str cmd ''cnset'' then
          (case js_get payload ''name'' of
             Inl e \<Rightarrow> (Inl e, w, m)
           | Inr name \<Rightarrow>
               receiveChannel (w, m) name
                 (case ev_ports event of p # ps \<Rightarrow> Some p | [] \<Rightarrow> None))
        else call_onCommand (w, m) cmd payload)"

text \<open>
  The \<open>onmessage\<close> handler that \<open>switchToChannel_\<close> installs on the dedicated
  endpoint.
\<close>

definition port_onmessage ::
  "world \<times> Messenger \<Rightarrow> MessageEvent \<Rightarrow> (thrown + unit) \<times> world \<times> Messenger" where
  "port_onmessage s event =
     (let d = ev_data event;
          cmd = js_and d (js_prop d ''cmd'');
          payload = js_or (js_and d (js_prop d ''payload'')) JNull
      in if truthy cmd then Messenger_handleCommand s cmd payload event
         else (case s of (w, m) \<Rightarrow> (Inr (), w, m)))"

text \<open>
  \<open>handleEvent_\<close> in three parts. First the check of the source, for a messenger that
  requires its target: it answers whether the source differs from the peer window, and
  resolving the peer window may store it.
\<close>

definition source_mismatch :: "Messenger \<Rightarrow> MessageEvent \<Rightarrow> bool \<times> Messenger" where
  "source_mismatch m event =
     (if requireTarget m
      then (case getOptionalTarget m of (t, m') \<Rightarrow> (t \<noteq> ev_source event, m'))
      else (False, m))"

text \<open>
  Then the two statements that pin the origin while it is unknown: on a \<open>start\<close>
  command, and on a message whose source is the peer window.
\<close>

definition pin_origin :: "Messenger \<Rightarrow> MessageEvent \<Rightarrow> jsval \<Rightarrow> Messenger" where
  "pin_origin m1 event cmd =
     (let m2 = (if targetOrigin m1 = None \<and> js_eq_str cmd ''start''
                then m1\<lparr>targetOrigin := Some (ev_origin event)\<rparr> else m1)
      in if targetOrigin m2 = None \<and> ev_source event \<noteq> None
         then (case getOptionalTarget m2 of (t, m') \<Rightarrow>
                 if t = ev_source event
                 then m'\<lparr>targetOrigin := Some (ev_origin event)\<rparr> else m')
         else m2)"

text \<open>
  And the whole of \<open>handleEvent_\<close> up to its last statement: \<open>None\<close> at each
  \<open>return\<close>, and the command and payload that it hands to \<open>handleCommand_\<close> otherwise.
  It touches the messenger only.
\<close>

definition acceptEvent :: "Messenger \<Rightarrow> MessageEvent \<Rightarrow> (jsval \<times> jsval) option \<times> Messenger" where
  "acceptEvent m event =
     (case source_mismatch m event of
        (mismatch, m1) \<Rightarrow>
          if mismatch then (None, m1)
          else
            (let d = ev_data event in
             if \<not> truthy d \<or> \<not> js_eq_str (js_prop d ''sentinel'') SENTINEL then (None, m1)
             else
               (let cmd = js_prop d ''cmd'' in
                if port m1 \<noteq> None \<and> \<not> js_eq_str cmd ''connect'' \<and> \<not> js_eq_str cmd ''start''
                then (None, m1)
                else
                  (let orig = ev_origin event;
                       payload = js_or (js_prop d ''payload'') JNull;
                       m3 = pin_origin m1 event cmd
                   in if targetOrigin m3 \<noteq> Some orig then (None, m3)
                      else (Some (cmd, payload), m3)))))"

definition handleEvent ::
  "world \<times> Messenger \<Rightarrow> MessageEvent \<Rightarrow> (thrown + unit) \<times> world \<times> Messenger" where
  "handleEvent s event =
     (case s of (w, m) \<Rightarrow>
        case acceptEvent m event of
          (None, m') \<Rightarrow> (Inr (), w, m')
        | (Some (cmd, payload), m') \<Rightarrow> Messenger_handleCommand (w, m') cmd payload event)"

section \<open>Sessions of a messenger\<close>

text \<open>
  What can happen to a connected messenger until it is disconnected: a message arrives on
  the window or on the dedicated endpoint, or its owner calls one of its methods. An
  exception that escapes leaves the state as the call had changed it so far.
\<close>

datatype action =
    Receive MessageEvent
  | PortReceive MessageEvent
  | SendCommand string jsval "portid list"
  | SendConnectCommand
  | SendStartCommand jsval
  | CustomMessage jsval
  | OnCustomMessage callback
  | StartChannel jsval
  | AskChannel jsval

fun perform :: "action \<Rightarrow> world \<times> Messenger \<Rightarrow> world \<times> Messenger" where
  "perform (Receive event) s = snd (handleEvent s event)"
| "perform (PortReceive event) s = snd (port_onmessage s event)"
| "perform (SendCommand cmd payload transfer) s = snd (sendCommand s cmd payload transfer)"
| "perform SendConnectCommand s = snd (sendConnectCommand s)"
| "perform (SendStartCommand a) s = snd (sendStartCommand s a)"
| "perform (CustomMessage payload) s = snd (customMessage s payload)"
| "perform (OnCustomMessage cb) s = (fst s, Messenger_onCustomMessage (snd s) cb)"
| "perform (StartChannel name) s = snd (startChannel s name)"
| "perform (AskChannel name) s = snd (askChannel s name)"

fun session_run :: "action list \<Rightarrow> world \<times> Messenger \<Rightarrow> world \<times> Messenger" where
  "session_run [] s = s"
| "session_run (a # as) s = session_run as (perform a s)"

text \<open>The window that the peer reference stands for.\<close>

definition resolve_target :: "target_ref \<Rightarrow> win option" where
  "resolve_target r = (case r of TargetCallback x \<Rightarrow> x | TargetWindow x \<Rightarrow> Some x)"

text \<open>
  How a step may change what a messenger knows of its peer: the reference and the
  requirement stay, a pinned origin stays, and the stored window stays or is resolved.
\<close>

definition peer_kept :: "Messenger \<Rightarrow> Messenger \<Rightarrow> bool" where
  "peer_kept m m' =
     (requireTarget m' = requireTarget m \<and> targetOrCallback m' = targetOrCallback m \<and>
      (case targetOrigin m of Some orig \<Rightarrow> targetOrigin m' = Some orig | None \<Rightarrow> True) \<and>
      (target m' = target m \<or>
       (target m = None \<and> target m' = resolve_target (targetOrCallback m))))"

text \<open>The peer window is resolved, as far as the messenger will ever resolve it.\<close>

definition peer_resolved :: "Messenger \<Rightarrow> bool" where
  "peer_resolved m =
     (if requireTarget m \<and> target m = None then resolve_target (targetOrCallback m) = None
      else True)"

text \<open>
  \<open>messageChannel\<close> as either side calls it (the port asks, the host starts), the promise
  that the session holds for a name, and the number of envelopes with a given command
  among the effects.
\<close>

definition channel_call ::
  "bool \<Rightarrow> world \<times> Messenger \<Rightarrow> jsval \<Rightarrow> (thrown + nat option) \<times> world \<times> Messenger" where
  "channel_call ask s name = (if ask then askChannel s name else startChannel s name)"

definition channel_holder :: "Messenger \<Rightarrow> string \<Rightarrow> ChannelHolder option" where
  "channel_holder m k = (case channels m of None \<Rightarrow> None | Some chs \<Rightarrow> map_of chs k)"

definition channel_names :: "Messenger \<Rightarrow> string list" where
  "channel_names m = (case channels m of None \<Rightarrow> [] | Some chs \<Rightarrow> map fst chs)"

definition channel_promise :: "Messenger \<Rightarrow> string \<Rightarrow> nat option" where
  "channel_promise m k =
     (case channels m of
        None \<Rightarrow> None
      | Some chs \<Rightarrow> map_option promise (map_of chs k))"






section \<open>The window port (activity-window-port.js)\<close>

record ActivityOpenOptions =
  returnUrl :: "string option"
  skipRequestInUrl :: bool
  disableRedirectFallback :: bool
  width :: "nat option"
  height :: "nat option"

definition no_options :: ActivityOpenOptions where
  "no_options = \<lparr> returnUrl = None, skipRequestInUrl = False, disableRedirectFallback = False,
                  width = None, height = None \<rparr>"

text \<open>The state of the result promise.\<close>

datatype result_promise = Pending | Fulfilled ActivityResult | Rejected thrown

text \<open>
  Modelled from the spec: \<open>resolveResult(win, result, resolver)\<close> belongs to
  \<open>utils.js\<close>, which is not among the sources. By the spec the port resolves its result
  promise with the \<open>ActivityResult\<close>: the resolver is called with the result, which
  settles a promise that is still pending and leaves a settled one as it is.
\<close>

definition resolveResult :: "ActivityResult \<Rightarrow> result_promise \<Rightarrow> result_promise" where
  "resolveResult r pr = (if pr = Pending then Fulfilled r else pr)"

text \<open>\<open>resolver(Promise.reject(reason))\<close>.\<close>

definition rejectResult :: "thrown \<Rightarrow> result_promise \<Rightarrow> result_promise" where
  "rejectResult e pr = (if pr = Pending then Rejected e else pr)"

text \<open>
  The port. \<open>connectedPromise\<close> tells whether the connected promise is fulfilled, and
  \<open>resultResolver\<close> whether the field still holds the resolver (it is \<open>null\<close> otherwise).
\<close>

record ActivityWindowPort =
  requestId :: string
  url :: string
  openTarget :: string
  args :: jsval
  options :: ActivityOpenOptions
  connectedPromise :: bool
  resultResolver :: bool
  resultPromise :: result_promise
  targetWin :: "win option"
  heartbeatInterval :: "nat option"
  messenger :: "Messenger option"


definition getMode :: "ActivityWindowPort \<Rightarrow> ActivityMode" where
  "getMode p = (if openTarget p = ''_top'' then REDIRECT else POPUP)"

text \<open>Timers. A timer's identity is a positive number.\<close>

definition setInterval :: "nat \<Rightarrow> world \<Rightarrow> nat \<times> world" where
  "setInterval period w =
     (Suc (nextId w),
      w\<lparr>nextId := Suc (nextId w), intervals := intervals w @ [(Suc (nextId w), now w + period)]\<rparr>)"

definition clearInterval :: "nat \<Rightarrow> world \<Rightarrow> world" where
  "clearInterval i w = (emit (ClearInterval i) w)\<lparr>intervals := filter (\<lambda>e. fst e \<noteq> i) (intervals w)\<rparr>"

definition setTimeout :: "task \<Rightarrow> nat \<Rightarrow> world \<Rightarrow> world" where
  "setTimeout t delay w =
     w\<lparr>nextId := Suc (nextId w), timeouts := timeouts w @ [(Suc (nextId w), now w + delay, t)]\<rparr>"

text \<open>\<open>if (this.heartbeatInterval_) { clearInterval(...); this.heartbeatInterval_ = null; }\<close>\<close>

definition stop_heartbeat :: "world \<times> ActivityWindowPort \<Rightarrow> world \<times> ActivityWindowPort" where
  "stop_heartbeat s =
     (case s of (w, p) \<Rightarrow>
        case heartbeatInterval p of
          Some i \<Rightarrow> if i \<noteq> 0 then (clearInterval i w, p\<lparr>heartbeatInterval := None\<rparr>) else (w, p)
        | None \<Rightarrow> (w, p))"

definition ActivityWindowPort_disconnect ::
  "world \<times> ActivityWindowPort \<Rightarrow> world \<times> ActivityWindowPort" where
  "ActivityWindowPort_disconnect s =
     (case stop_heartbeat s of (w1, p1) \<Rightarrow>
        case (case messenger p1 of
                Some m \<Rightarrow> (fst (Messenger_disconnect (w1, m)), p1\<lparr>messenger := None\<rparr>)
              | None \<Rightarrow> (w1, p1)) of
          (w2, p2) \<Rightarrow>
            (case (case targetWin p2 of
                     Some t \<Rightarrow> (emit (WindowClose t) w2, p2\<lparr>targetWin := None\<rparr>)
                   | None \<Rightarrow> (w2, p2)) of
               (w3, p3) \<Rightarrow> (w3, p3\<lparr>resultResolver := False\<rparr>)))"

definition disconnectWithError ::
  "world \<times> ActivityWindowPort \<Rightarrow> thrown \<Rightarrow> world \<times> ActivityWindowPort" where
  "disconnectWithError s reason =
     (case s of (w, p) \<Rightarrow>
        ActivityWindowPort_disconnect
          (w, if resultResolver p then p\<lparr>resultPromise := rejectResult reason (resultPromise p)\<rparr>
              else p))"

definition setupPopup :: "world \<times> ActivityWindowPort \<Rightarrow> world \<times> ActivityWindowPort" where
  "setupPopup s =
     (case s of (w, p) \<Rightarrow>
        case setInterval 500 w of (i, w1) \<Rightarrow>
          (case Messenger_connect
                  (w1, new_Messenger (case targetWin p of Some t \<Rightarrow> TargetWindow t
                                                         | None \<Rightarrow> TargetCallback None)
                         None True)
                  PortHandleCommand of
             (r, w2, m) \<Rightarrow> (w2, p\<lparr>heartbeatInterval := Some i, messenger := Some m\<rparr>)))"

definition check :: "world \<times> ActivityWindowPort \<Rightarrow> bool \<Rightarrow> world \<times> ActivityWindowPort" where
  "check s delayCancel =
     (case s of (w, p) \<Rightarrow>
        if (case targetWin p of None \<Rightarrow> True | Some t \<Rightarrow> t \<in> set (closedWins w)) then
          (case stop_heartbeat (w, p) of (w1, p1) \<Rightarrow>
             (setTimeout CancelTask (if delayCancel then 3000 else 0) w1, p1))
        else (w, p))"

definition result ::
  "world \<times> ActivityWindowPort \<Rightarrow> jsval \<Rightarrow> jsval \<Rightarrow> (thrown + unit) \<times> world \<times> ActivityWindowPort" where
  "result s c d =
     (case s of (w, p) \<Rightarrow>
        case (if resultResolver p then
                (case messenger p of
                   None \<Rightarrow> Inl TypeError
                 | Some m \<Rightarrow>
                     (case (if isConnected m then getTargetOrigin m
                            else Inr (getOriginFromUrl (utils w) (url p))) of
                        Inl e \<Rightarrow> Inl e
                      | Inr orig \<Rightarrow>
                          Inr (p\<lparr>resultPromise :=
                                    resolveResult
                                      (new_ActivityResult c d POPUP (JStr orig)
                                         (isConnected m) (isConnected m))
                                      (resultPromise p),
                                 resultResolver := False\<rparr>)))
              else Inr p) of
          Inl e \<Rightarrow> (Inl e, w, p)
        | Inr p1 \<Rightarrow>
            (case messenger p1 of
               Some m \<Rightarrow>
                 (case sendCommand (w, m) ''close'' JUndefined [] of
                    (Inl e, w', m') \<Rightarrow> (Inl e, w', p1\<lparr>messenger := Some m'\<rparr>)
                  | (Inr u, w', m') \<Rightarrow>
                      (Inr (), ActivityWindowPort_disconnect (w', p1\<lparr>messenger := Some m'\<rparr>)))
             | None \<Rightarrow> (Inr (), ActivityWindowPort_disconnect (w, p1))))"

definition ActivityWindowPort_handleCommand ::
  "world \<times> ActivityWindowPort \<Rightarrow> jsval \<Rightarrow> jsval \<Rightarrow> (thrown + unit) \<times> world \<times> ActivityWindowPort" where
  "ActivityWindowPort_handleCommand s cmd payload =
     (case s of (w, p) \<Rightarrow>
        if js_eq_str cmd ''connect'' then
          (case messenger p of
             None \<Rightarrow> (Inl TypeError, w, p)
           | Some m \<Rightarrow>
               (case sendStartCommand (w, m) (args p) of
                  (Inl e, w', m') \<Rightarrow> (Inl e, w', p\<lparr>messenger := Some m'\<rparr>)
                | (Inr u, w', m') \<Rightarrow>
                    (Inr (), w', p\<lparr>messenger := Some m', connectedPromise := True\<rparr>)))
        else if js_eq_str cmd ''result'' then
          (case js_get payload ''code'' of
             Inl e \<Rightarrow> (Inl e, w, p)
           | Inr c \<Rightarrow>
               result (w, p) c
                 (if js_eq_str c FAILED
                  then new_Error (js_or (js_prop payload ''data'') (JStr []))
                  else js_prop payload ''data''))
        else if js_eq_str cmd ''check'' then (Inr (), setTimeout CheckTask 200 w, p)
        else (Inr (), w, p))"

text \<open>
  The delayed cancel: \<open>try { this.result_(CANCELED, null) } catch (e) {
  this.disconnectWithError_(e) }\<close>.
\<close>

definition run_task :: "task \<Rightarrow> world \<times> ActivityWindowPort \<Rightarrow> world \<times> ActivityWindowPort" where
  "run_task t s =
     (case t of
        CheckTask \<Rightarrow> check s False
      | CancelTask \<Rightarrow>
          (case result s (JStr CANCELED) JNull of
             (Inl e, s') \<Rightarrow> disconnectWithError s' e
           | (Inr u, s') \<Rightarrow> s'))"

text \<open>
  \<open>openInternal_\<close>. The feature string and the request url come from the environment;
  the local \<open>openTarget\<close> is the only target that the fallback changes.
\<close>

definition try_open :: "world \<Rightarrow> string \<Rightarrow> string \<Rightarrow> string option \<Rightarrow> win option \<times> world" where
  "try_open w u tgt features =
     ((case openWindow (window w) u tgt of OpenReturns r \<Rightarrow> r | OpenThrows \<Rightarrow> None),
      emit (WindowOpen u tgt features) w)"

definition openInternal :: "world \<times> ActivityWindowPort \<Rightarrow> world \<times> ActivityWindowPort" where
  "openInternal s =
     (case s of (w, p) \<Rightarrow>
        (let u = (if \<not> skipRequestInUrl (options p)
                  then addFragmentParam (utils w) (url p) ''__WA__''
                         (serializeRequest (utils w) (requestId p)
                            (case returnUrl (options p) of
                               Some r \<Rightarrow> if r \<noteq> [] then r
                                          else removeFragment (utils w) (locationHref (window w))
                             | None \<Rightarrow> removeFragment (utils w) (locationHref (window w)))
                            (args p))
                  else url p);
             openTarget1 = (if openTarget p \<noteq> ''_top'' \<and> isIeBrowser (utils w)
                            then ''_top'' else openTarget p)
         in case try_open w u openTarget1 (Some (featuresStr (window w))) of
              (targetWin1, w1) \<Rightarrow>
                (case (if targetWin1 = None \<and> openTarget1 \<noteq> ''_top''
                          \<and> \<not> disableRedirectFallback (options p)
                       then (case try_open w1 u ''_top'' None of
                               (tw, w') \<Rightarrow> (tw, ''_top'', w'))
                       else (targetWin1, openTarget1, w1)) of
                   (targetWin2, openTarget2, w2) \<Rightarrow>
                     (case targetWin2 of
                        Some t \<Rightarrow>
                          if openTarget2 \<noteq> ''_top''
                          then setupPopup (w2, p\<lparr>targetWin := Some t\<rparr>)
                          else (w2, p\<lparr>targetWin := Some t\<rparr>)
                      | None \<Rightarrow> disconnectWithError (w2, p) (Error ''failed to open window'')))))"

text \<open>
  What can happen to a port: time passes, the heartbeat interval or a timeout fires (never
  before it is due), the messenger hands over a command, or the opened window closes.
\<close>

datatype port_event =
    Elapse nat
  | Heartbeat nat
  | Timeout nat
  | Command jsval jsval
  | WindowCloses

fun find_timeout :: "nat \<Rightarrow> (nat \<times> nat \<times> task) list \<Rightarrow> (nat \<times> task) option" where
  "find_timeout i [] = None"
| "find_timeout i ((j, due, t) # ts) = (if j = i then Some (due, t) else find_timeout i ts)"

fun port_step :: "port_event \<Rightarrow> world \<times> ActivityWindowPort \<Rightarrow> world \<times> ActivityWindowPort" where
  "port_step (Elapse d) (w, p) = (w\<lparr>now := now w + d\<rparr>, p)"
| "port_step (Heartbeat i) (w, p) =
     (case map_of (intervals w) i of
        Some due \<Rightarrow>
          if due \<le> now w
          then check (w\<lparr>intervals := map (\<lambda>e. if fst e = i then (i, due + 500) else e)
                                          (intervals w)\<rparr>, p) True
          else (w, p)
      | None \<Rightarrow> (w, p))"
| "port_step (Timeout i) (w, p) =
     (case find_timeout i (timeouts w) of
        Some (due, t) \<Rightarrow>
          if due \<le> now w
          then run_task t (w\<lparr>timeouts := filter (\<lambda>e. fst e \<noteq> i) (timeouts w)\<rparr>, p)
          else (w, p)
      | None \<Rightarrow> (w, p))"
| "port_step (Command cmd payload) (w, p) = snd (ActivityWindowPort_handleCommand (w, p) cmd payload)"
| "port_step WindowCloses (w, p) =
     (case targetWin p of
        Some t \<Rightarrow> (w\<lparr>closedWins := t # closedWins w\<rparr>, p)
      | None \<Rightarrow> (w, p))"

fun port_run :: "port_event list \<Rightarrow> world \<times> ActivityWindowPort \<Rightarrow> world \<times> ActivityWindowPort" where
  "port_run [] s = s"
| "port_run (e # es) s = port_run es (port_step e s)"



definition canceled :: "ActivityWindowPort \<Rightarrow> bool" where
  "canceled p =
     (case resultPromise p of
        Fulfilled r \<Rightarrow> code r = JStr CANCELED \<and> data r = JNull
      | Pending \<Rightarrow> False
      | Rejected e \<Rightarrow> False)"


section \<open>Redirect results (activity-window-port.js)\<close>

record ActivityWindowRedirectPort =
  rp_code :: jsval
  rp_data :: jsval
  rp_targetOrigin :: jsval
  rp_targetOriginVerified :: bool

definition discoverRedirectPort ::
  "world \<Rightarrow> string \<Rightarrow> string \<Rightarrow> (thrown + ActivityWindowRedirectPort option) \<times> world" where
  "discoverRedirectPort w fragment rid =
     (case getQueryParam (utils w) fragment ''__WA_RES__'' of
        None \<Rightarrow> (Inr None, w)
      | Some fragmentParam \<Rightarrow>
          if fragmentParam = [] then (Inr None, w)
          else
            (case jsonParse (window w) fragmentParam of
               None \<Rightarrow> (Inl SyntaxError, w)
             | Some response \<Rightarrow>
                 if \<not> truthy response \<or> \<not> js_eq_str (js_prop response ''requestId'') rid
                 then (Inr None, w)
                 else
                   (let cleanFragment =
                          (case removeQueryParam (utils w) (locationHash (window w)) ''__WA_RES__'' of
                             Some c \<Rightarrow> c | None \<Rightarrow> []);
                        w1 = (if cleanFragment \<noteq> locationHash (window w) \<and> hasReplaceState (window w)
                              then emit (ReplaceState cleanFragment) w else w);
                        orig = js_prop response ''origin'';
                        referrerOrigin =
                          (if referrer (window w) = [] then []
                           else getOriginFromUrl (utils w) (referrer (window w)))
                    in (Inr (Some \<lparr> rp_code = js_prop response ''code'',
                                     rp_data = js_prop response ''data'',
                                     rp_targetOrigin = orig,
                                     rp_targetOriginVerified = js_eq_str orig referrerOrigin \<rparr>),
                        w1))))"

definition redirect_getMode :: "ActivityWindowRedirectPort \<Rightarrow> ActivityMode" where
  "redirect_getMode rp = REDIRECT"

text \<open>\<open>acceptResult\<close> of the redirect port: the state of the promise it returns.\<close>

definition redirect_acceptResult :: "ActivityWindowRedirectPort \<Rightarrow> result_promise" where
  "redirect_acceptResult rp =
     resolveResult
       (new_ActivityResult (rp_code rp) (rp_data rp) REDIRECT (rp_targetOrigin rp)
          (rp_targetOriginVerified rp) False)
       Pending"

section \<open>Concrete sessions\<close>

text \<open>
  A page at \<open>https://client.example\<close> that opens an activity of
  \<open>https://host.example\<close>; the helper functions are fixed to simple instances.
\<close>

definition fragment0 :: string where
  "fragment0 = ''#__WA_RES__=%7B%22requestId%22%3A%22r1%22%2C%22code%22%3A%22ok%22%2C%22data%22%3A%7B%22a%22%3A1%7D%2C%22origin%22%3A%22https%3A%2F%2Fx%22%7D''"

definition json0 :: string where
  "json0 = ''{\"requestId\":\"r1\",\"code\":\"ok\",\"data\":{\"a\":1},\"origin\":\"https://x\"}''"

definition response0 :: jsval where
  "response0 = JObj [(''requestId'', JStr ''r1''), (''code'', JStr ''ok''),
                     (''data'', JObj [(''a'', JNum 1)]), (''origin'', JStr ''https://x'')]"

definition utils0 :: Utils where
  "utils0 = \<lparr> isIeBrowser = False, isEdgeBrowser = False,
               getOriginFromUrl = (\<lambda>u. if u = ''https://x/done'' then ''https://x''
                                       else ''https://host.example''),
               getQueryParam = (\<lambda>f k. if f = fragment0 \<and> k = ''__WA_RES__'' then Some json0 else None),
               removeQueryParam = (\<lambda>f k. None),
               removeFragment = (\<lambda>u. u),
               addFragmentParam = (\<lambda>u k v. u @ ''#'' @ k @ ''='' @ v),
               serializeRequest = (\<lambda>rid ret a. rid) \<rparr>"

definition window0 :: Window where
  "window0 = \<lparr> locationHref = ''https://client.example/page'', locationHash = fragment0,
                referrer = ''https://x/done'', hasMessageChannel = True, hasReplaceState = True,
                openWindow = (\<lambda>u t. OpenReturns (Some 7)),
                jsonParse = (\<lambda>t. if t = json0 then Some response0 else None),
                featuresStr = ''height=600,width=600'' \<rparr>"

definition world0 :: world where
  "world0 = \<lparr> utils = utils0, window = window0, trace = [], nextId = 0, now = 0,
               timeouts = [], intervals = [], closedWins = [], memberPorts = [] \<rparr>"

text \<open>The same page where a popup is blocked and only \<open>_top\<close> opens.\<close>

definition world_blocked :: world where
  "world_blocked =
     world0\<lparr>window := window0\<lparr>openWindow :=
        (\<lambda>u t. if t = ''_top'' then OpenReturns (Some 8) else OpenReturns None)\<rparr>\<rparr>"

definition port0 :: ActivityWindowPort where
  "port0 = \<lparr> requestId = ''r1'', url = ''https://host.example/activity'', openTarget = ''_blank'',
              args = JNull, options = no_options, connectedPromise = False,
              resultResolver = True, resultPromise = Pending, targetWin = None,
              heartbeatInterval = None, messenger = None \<rparr>"

text \<open>The port after \<open>open()\<close>: a popup with its heartbeat and its messenger.\<close>

definition popup0 :: "world \<times> ActivityWindowPort" where
  "popup0 = openInternal (world0, port0)"

text \<open>
  A host-side messenger that listens for its opener (window 1), before and after the
  origin is pinned, and after it has switched to a dedicated endpoint.
\<close>

definition host0 :: Messenger where
  "host0 = (new_Messenger (TargetWindow 1) None False)\<lparr>onCommand := Some (Callback 0)\<rparr>"

definition host_pinned :: Messenger where
  "host_pinned = host0\<lparr>targetOrigin := Some ''https://client.example'', target := Some 1\<rparr>"

definition host_port :: Messenger where
  "host_port = host_pinned\<lparr>port := Some 5\<rparr>"

text \<open>A listening messenger with a pinned origin whose peer accessor answers \<open>null\<close>.\<close>

definition host_unresolved :: Messenger where
  "host_unresolved =
     (new_Messenger (TargetCallback None) (Some ''https://client.example'') False)
       \<lparr>onCommand := Some (Callback 0)\<rparr>"

text \<open>The same popup once its messenger has pinned the host's origin.\<close>

definition popup_connected :: "world \<times> ActivityWindowPort" where
  "popup_connected =
     (fst popup0,
      (snd popup0)\<lparr>messenger :=
         map_option (\<lambda>m. m\<lparr>targetOrigin := Some ''https://host.example'', target := Some 7\<rparr>)
           (messenger (snd popup0))\<rparr>)"

text \<open>A message without the sentinel, and one from another origin.\<close>

definition event_plain :: MessageEvent where
  "event_plain = \<lparr> ev_source = Some 1, ev_data = JObj [(''cmd'', JStr ''foo'')],
                    ev_origin = ''https://client.example'', ev_ports = [] \<rparr>"

definition event_foreign :: MessageEvent where
  "event_foreign = \<lparr> ev_source = Some 2, ev_data = envelope ''result'' JNull,
                      ev_origin = ''https://evil.example'', ev_ports = [] \<rparr>"

definition event_start :: MessageEvent where
  "event_start = \<lparr> ev_source = Some 1, ev_data = envelope ''start'' JNull,
                    ev_origin = ''https://client.example'', ev_ports = [] \<rparr>"





section \<open>Properties\<close>

subsection \<open>Helper facts on values\<close>

lemma string_to_int_codes:
  "string_to_int ''ok'' = None" "string_to_int ''canceled'' = None"
  "string_to_int ''failed'' = None"
  by (simp_all add: string_to_int_def trim_ws_def is_ws_def digit_val_def)

lemma js_eq_str_not_OK:
  "js_eq_str c CANCELED \<or> js_eq_str c FAILED \<Longrightarrow> \<not> js_eq_str c OK"
  by (cases c) (auto simp: string_to_int_codes OK_def CANCELED_def FAILED_def)

subsection \<open>Concrete sessions, evaluated\<close>

lemmas fixture_defs = world0_def utils0_def window0_def port0_def host0_def host_pinned_def
  host_port_def new_Messenger_def no_options_def world_blocked_def

lemma blocked_open:
  "openInternal (world_blocked, port0) =
     (world_blocked\<lparr>trace :=
        [WindowOpen ''https://host.example/activity#__WA__=r1'' ''_blank'' (Some ''height=600,width=600''),
         WindowOpen ''https://host.example/activity#__WA__=r1'' ''_top'' None]\<rparr>,
      port0\<lparr>targetWin := Some 8\<rparr>)"
  by (simp add: fixture_defs openInternal_def Let_def try_open_def emit_def)

lemma popup0_eval:
  "popup0 =
     (world0\<lparr>trace := [WindowOpen ''https://host.example/activity#__WA__=r1'' ''_blank''
                          (Some ''height=600,width=600''), AddMessageListener],
             nextId := 1, intervals := [(1, 500)]\<rparr>,
      port0\<lparr>targetWin := Some 7, heartbeatInterval := Some 1,
            messenger := Some ((new_Messenger (TargetWindow 7) None True)
                                 \<lparr>onCommand := Some PortHandleCommand\<rparr>)\<rparr>)"
  by (simp add: popup0_def fixture_defs openInternal_def Let_def try_open_def emit_def setupPopup_def
      setInterval_def Messenger_connect_def)

subsection \<open>What disconnecting leaves alone\<close>

lemma close_channels_trace: "close_channels chs w = w\<lparr>trace := trace (close_channels chs w)\<rparr>"
proof (induction chs arbitrary: w)
  case Nil
  show ?case by simp
next
  case (Cons a chs)
  obtain k h where a: "a = (k, h)" by (cases a)
  define w2 where "w2 = (case port2 h of Some q \<Rightarrow> closePort q (case port1 h of Some q \<Rightarrow> closePort q w | None \<Rightarrow> w)
                         | None \<Rightarrow> (case port1 h of Some q \<Rightarrow> closePort q w | None \<Rightarrow> w))"
  have s: "close_channels (a # chs) w = close_channels chs w2"
    by (simp add: a w2_def Let_def)
  have fs: "w2 = w\<lparr>trace := trace w2\<rparr>"
    by (cases "port1 h"; cases "port2 h") (simp_all add: w2_def closePort_def emit_def)
  have "close_channels chs w2 = w2\<lparr>trace := trace (close_channels chs w2)\<rparr>" by (rule Cons.IH)
  also have "\<dots> = w\<lparr>trace := trace (close_channels chs w2)\<rparr>" by (subst fs) simp
  finally show ?case unfolding s .
qed

lemma close_channels_shape: "\<exists>es. close_channels chs w = w\<lparr>trace := es\<rparr>"
  using close_channels_trace by blast

lemma Messenger_disconnect_world: "\<exists>es. fst (Messenger_disconnect (w, m)) = w\<lparr>trace := es\<rparr>"
proof (cases "onCommand m = None")
  case True
  then show ?thesis by (intro exI [of _ "trace w"]) (simp add: Messenger_disconnect_def)
next
  case False
  define w2 where "w2 = emit RemoveMessageListener (case port m of Some q \<Rightarrow> closePort q w | None \<Rightarrow> w)"
  have fs: "w2 = w\<lparr>trace := trace w2\<rparr>"
    by (cases "port m") (simp_all add: w2_def closePort_def emit_def)
  have e: "fst (Messenger_disconnect (w, m)) =
          (case channels m of Some chs \<Rightarrow> close_channels chs w2 | None \<Rightarrow> w2)"
    using False by (simp add: Messenger_disconnect_def Let_def w2_def split: option.splits)
  show ?thesis
  proof (cases "channels m")
    case None
    then show ?thesis using e fs by auto
  next
    case (Some chs)
    obtain es where "close_channels chs w2 = w2\<lparr>trace := es\<rparr>"
      using close_channels_shape by blast
    then have "close_channels chs w2 = w\<lparr>trace := es\<rparr>" by (subst (asm) fs) simp
    then show ?thesis using e Some by auto
  qed
qed

lemma stop_heartbeat_shape:
  "\<exists>es iv h. stop_heartbeat (w, p) = (w\<lparr>trace := es, intervals := iv\<rparr>, p\<lparr>heartbeatInterval := h\<rparr>)"
proof (cases "\<exists>i. heartbeatInterval p = Some i \<and> i \<noteq> 0")
  case True
  then obtain i where "heartbeatInterval p = Some i" "i \<noteq> 0" by blast
  then have "stop_heartbeat (w, p) =
      (w\<lparr>trace := trace w @ [ClearInterval i], intervals := filter (\<lambda>e. fst e \<noteq> i) (intervals w)\<rparr>,
       p\<lparr>heartbeatInterval := None\<rparr>)"
    by (simp add: stop_heartbeat_def clearInterval_def emit_def)
  then show ?thesis by blast
next
  case False
  then have "stop_heartbeat (w, p) = (w\<lparr>trace := trace w, intervals := intervals w\<rparr>,
      p\<lparr>heartbeatInterval := heartbeatInterval p\<rparr>)"
    by (auto simp add: stop_heartbeat_def split: option.splits)
  then show ?thesis by blast
qed

lemma port_disconnect_shape:
  "\<exists>es iv h. ActivityWindowPort_disconnect (w, p) =
     (w\<lparr>trace := es, intervals := iv\<rparr>,
      p\<lparr>heartbeatInterval := h, messenger := None, targetWin := None, resultResolver := False\<rparr>)"
proof -
  obtain es iv h where 1: "stop_heartbeat (w, p) =
      (w\<lparr>trace := es, intervals := iv\<rparr>, p\<lparr>heartbeatInterval := h\<rparr>)"
    using stop_heartbeat_shape by blast
  define w1 where "w1 = w\<lparr>trace := es, intervals := iv\<rparr>"
  define w2 where "w2 = (case messenger p of Some m \<Rightarrow> fst (Messenger_disconnect (w1, m)) | None \<Rightarrow> w1)"
  have "\<exists>fs. w2 = w1\<lparr>trace := fs\<rparr>"
  proof (cases "messenger p")
    case None
    then show ?thesis unfolding w2_def by (intro exI [of _ "trace w1"]) simp
  next
    case (Some m)
    then show ?thesis unfolding w2_def using Messenger_disconnect_world [of w1 m] by simp
  qed
  then obtain fs where 2: "w2 = w1\<lparr>trace := fs\<rparr>" by blast
  define w3 where "w3 = (case targetWin p of Some t \<Rightarrow> emit (WindowClose t) w2 | None \<Rightarrow> w2)"
  have 3: "w3 = w\<lparr>trace := trace w3, intervals := iv\<rparr>"
    unfolding w3_def 2 w1_def emit_def by (cases "targetWin p") auto
  have "ActivityWindowPort_disconnect (w, p) =
      (w3, p\<lparr>heartbeatInterval := h, messenger := None, targetWin := None, resultResolver := False\<rparr>)"
    unfolding ActivityWindowPort_disconnect_def 1 w3_def w2_def w1_def
    by (cases "messenger p"; cases "targetWin p") auto
  then show ?thesis using 3 by metis
qed

lemma port_disconnect_frame:
  "resultPromise (snd (ActivityWindowPort_disconnect (w, p))) = resultPromise p"
  "now (fst (ActivityWindowPort_disconnect (w, p))) = now w"
  "timeouts (fst (ActivityWindowPort_disconnect (w, p))) = timeouts w"
  "closedWins (fst (ActivityWindowPort_disconnect (w, p))) = closedWins w"
  "\<not> resultResolver (snd (ActivityWindowPort_disconnect (w, p)))"
  "messenger (snd (ActivityWindowPort_disconnect (w, p))) = None"
  "targetWin (snd (ActivityWindowPort_disconnect (w, p))) = None"
  using port_disconnect_shape [of w p] by auto

subsection \<open>The result value\<close>

text \<open>
  Claim C8. Whatever the arguments of the \<open>ActivityResult\<close> constructor are, the stored
  data is non-null only when the code is \<open>OK\<close> (it is \<open>null\<close> for \<open>CANCELED\<close> and for
  \<open>FAILED\<close>), the error is an \<open>Error\<close> value exactly when the code is \<open>FAILED\<close> and
  \<open>null\<close> otherwise, and \<open>ok\<close> is the test \<open>code == OK\<close>.
\<close>

theorem ActivityResult_invariant:
  "let r = new_ActivityResult c d m orig v sec in
     (data r \<noteq> JNull \<longrightarrow> js_eq_str c OK) \<and>
     (js_eq_str c CANCELED \<or> js_eq_str c FAILED \<longrightarrow> data r = JNull) \<and>
     (is_Error (error r) \<longleftrightarrow> js_eq_str c FAILED) \<and>
     (\<not> js_eq_str c FAILED \<longrightarrow> error r = JNull) \<and>
     ok r = js_eq_str c OK"
  using js_eq_str_not_OK [of c]
  by (auto simp add: new_ActivityResult_def Let_def new_Error_def)

theorem ActivityResult_invariant_witness:
  "js_eq_str (JStr ''failed'') FAILED \<and>
   data (new_ActivityResult (JStr ''failed'') (JStr ''boom'') POPUP (JStr ''https://host'') True True)
     = JNull \<and>
   is_Error (error (new_ActivityResult (JStr ''failed'') (JStr ''boom'') POPUP
     (JStr ''https://host'') True True)) \<and>
   \<not> ok (new_ActivityResult (JStr ''failed'') (JStr ''boom'') POPUP (JStr ''https://host'') True True) \<and>
   \<not> js_eq_str (JStr ''ok'') FAILED \<and>
   data (new_ActivityResult (JStr ''ok'') (JNum 7) REDIRECT (JStr ''https://host'') False False)
     = JNum 7 \<and>
   error (new_ActivityResult (JStr ''ok'') (JNum 7) REDIRECT (JStr ''https://host'') False False)
     = JNull"
  using ActivityResult_invariant [of "JStr ''failed''" "JStr ''boom''" POPUP "JStr ''https://host''" True True]
    ActivityResult_invariant [of "JStr ''ok''" "JNum 7" REDIRECT "JStr ''https://host''" False False]
  by (simp add: Let_def FAILED_def OK_def new_ActivityResult_def)

subsection \<open>Sending\<close>

text \<open>
  Claim C7 fails as stated. A listening messenger without a dedicated endpoint, whose
  origin is pinned and whose peer accessor answers \<open>null\<close>, does not post to the pinned
  origin: \<open>getTarget()\<close> throws \<open>not connected\<close> and nothing is posted.
\<close>

theorem sendCommand_unresolved_peer:
  "port host_unresolved = None \<and>
   targetOrigin host_unresolved = Some ''https://client.example'' \<and>
   sendCommand (world0, host_unresolved) ''close'' JUndefined [] =
     (Inl (Error ''not connected''), world0, host_unresolved) \<and>
   sendCommand (world0, host_unresolved) ''connect'' JNull [] =
     (Inl (Error ''not connected''), world0, host_unresolved)"
  by (simp add: host_unresolved_def new_Messenger_def sendCommand_def getTarget_def
      getOptionalTarget_def Let_def)

text \<open>
  Claim C7, amended. \<open>sendCommand\<close> posts the envelope on the dedicated endpoint when one
  is installed. Otherwise it resolves the peer window. With the peer window at hand, it
  posts the envelope to that window addressed to the pinned origin; while the origin is
  still unknown, \<open>connect\<close> is posted with the wildcard \<open>*\<close>, and every other command
  fails with \<open>not connected\<close> and posts nothing. Without a peer window every command,
  \<open>connect\<close> included and whether or not the origin is pinned, fails with
  \<open>not connected\<close> and posts nothing.
\<close>

theorem sendCommand_routing:
  "(port m = Some p \<longrightarrow>
      sendCommand (w, m) cmd payload tr =
        (Inr (), emit (PortPostMessage p (envelope cmd payload) tr) w, m)) \<and>
   (port m = None \<and> fst (getOptionalTarget m) = Some t \<and> targetOrigin m = Some orig \<longrightarrow>
      sendCommand (w, m) cmd payload tr =
        (Inr (), emit (WindowPostMessage t (envelope cmd payload) orig tr) w,
         snd (getOptionalTarget m))) \<and>
   (port m = None \<and> fst (getOptionalTarget m) = Some t \<and> targetOrigin m = None \<longrightarrow>
      sendCommand (w, m) ''connect'' payload tr =
        (Inr (), emit (WindowPostMessage t (envelope ''connect'' payload) ''*'' tr) w,
         snd (getOptionalTarget m))) \<and>
   (port m = None \<and> targetOrigin m = None \<and> cmd \<noteq> ''connect'' \<longrightarrow>
      sendCommand (w, m) cmd payload tr =
        (Inl (Error ''not connected''), w, snd (getOptionalTarget m))) \<and>
   (port m = None \<and> fst (getOptionalTarget m) = None \<longrightarrow>
      sendCommand (w, m) cmd payload tr =
        (Inl (Error ''not connected''), w, snd (getOptionalTarget m)))"
  by (auto simp add: sendCommand_def getTarget_def getOptionalTarget_def getTargetOrigin_def Let_def
      split: option.splits prod.splits sum.splits target_ref.splits)

theorem sendCommand_routing_witness:
  "port host_port = Some 5 \<and>
   sendCommand (world0, host_port) ''close'' JUndefined [] =
     (Inr (), emit (PortPostMessage 5 (envelope ''close'' JUndefined) []) world0, host_port) \<and>
   port host_pinned = None \<and> fst (getOptionalTarget host_pinned) = Some 1 \<and>
   targetOrigin host_pinned = Some ''https://client.example'' \<and>
   sendCommand (world0, host_pinned) ''close'' JUndefined [] =
     (Inr (), emit (WindowPostMessage 1 (envelope ''close'' JUndefined) ''https://client.example'' [])
        world0, host_pinned) \<and>
   port host0 = None \<and> fst (getOptionalTarget host0) = Some 1 \<and> targetOrigin host0 = None \<and>
   sendCommand (world0, host0) ''connect'' JNull [] =
     (Inr (), emit (WindowPostMessage 1 (envelope ''connect'' JNull) ''*'' []) world0,
      host0\<lparr>target := Some 1\<rparr>) \<and>
   ''close'' \<noteq> ''connect'' \<and>
   sendCommand (world0, host0) ''close'' JUndefined [] =
     (Inl (Error ''not connected''), world0, host0\<lparr>target := Some 1\<rparr>) \<and>
   port host_unresolved = None \<and> fst (getOptionalTarget host_unresolved) = None \<and>
   sendCommand (world0, host_unresolved) ''ready'' JNull [] =
     (Inl (Error ''not connected''), world0, host_unresolved)"
  using sendCommand_routing [of host_port 5 world0 "''close''" JUndefined "[]" 0 "[]"]
    sendCommand_routing [of host_pinned 0 world0 "''close''" JUndefined "[]" 1 "''https://client.example''"]
    sendCommand_routing [of host0 0 world0 "''close''" JNull "[]" 1 "[]"]
    sendCommand_routing [of host0 0 world0 "''close''" JUndefined "[]" 1 "[]"]
    sendCommand_routing [of host_unresolved 0 world0 "''ready''" JNull "[]" 1 "[]"]
  by (simp add: host0_def host_pinned_def host_port_def host_unresolved_def new_Messenger_def
      getOptionalTarget_def)

subsection \<open>Disconnecting\<close>


subsection \<open>The mode of a port\<close>

lemma openTarget_disconnect:
  "openTarget (snd (ActivityWindowPort_disconnect (w, p))) = openTarget p"
  by (auto simp add: ActivityWindowPort_disconnect_def stop_heartbeat_def
        split: option.splits prod.splits if_splits)

lemma openTarget_disconnectWithError:
  "openTarget (snd (disconnectWithError (w, p) e)) = openTarget p"
  by (simp add: disconnectWithError_def openTarget_disconnect)

lemma openTarget_setupPopup: "openTarget (snd (setupPopup (w, p))) = openTarget p"
  by (simp add: setupPopup_def setInterval_def Messenger_connect_def new_Messenger_def
      split: prod.splits)

text \<open>However the attempts to open go, \<open>openInternal_\<close> ends in one of three ways.\<close>

lemma openInternal_cases:
  "(\<exists>w' t. openInternal (w, p) = setupPopup (w', p\<lparr>targetWin := Some t\<rparr>)) \<or>
   (\<exists>w' t. openInternal (w, p) = (w', p\<lparr>targetWin := Some t\<rparr>)) \<or>
   (\<exists>w' e. openInternal (w, p) = disconnectWithError (w', p) e)"
proof -
  obtain u t1 where o1: "openInternal (w, p) =
    (case try_open w u t1 (Some (featuresStr (window w))) of
              (targetWin1, w1) \<Rightarrow>
                (case (if targetWin1 = None \<and> t1 \<noteq> ''_top''
                          \<and> \<not> disableRedirectFallback (options p)
                       then (case try_open w1 u ''_top'' None of
                               (tw, w') \<Rightarrow> (tw, ''_top'', w'))
                       else (targetWin1, t1, w1)) of
                   (targetWin2, openTarget2, w2) \<Rightarrow>
                     (case targetWin2 of
                        Some t \<Rightarrow>
                          if openTarget2 \<noteq> ''_top''
                          then setupPopup (w2, p\<lparr>targetWin := Some t\<rparr>)
                          else (w2, p\<lparr>targetWin := Some t\<rparr>)
                      | None \<Rightarrow> disconnectWithError (w2, p) (Error ''failed to open window''))))"
    unfolding openInternal_def Let_def by (simp only: prod.case)
  obtain r1 w1 where a: "try_open w u t1 (Some (featuresStr (window w))) = (r1, w1)"
    by (cases "try_open w u t1 (Some (featuresStr (window w)))")
  obtain r2 w2 where b: "try_open w1 u ''_top'' None = (r2, w2)"
    by (cases "try_open w1 u ''_top'' None")
  show ?thesis
    unfolding o1 a b prod.case
    by (cases r1; cases r2; cases "t1 \<noteq> ''_top'' \<and> \<not> disableRedirectFallback (options p)";
        simp; blast)
qed

lemma openTarget_openInternal: "openTarget (snd (openInternal (w, p))) = openTarget p"
  using openInternal_cases [of w p]
  by (elim disjE exE) (simp_all add: openTarget_disconnectWithError openTarget_setupPopup)

text \<open>
  Claim C10. A port whose target is not \<open>_top\<close> reports \<open>POPUP\<close> before \<open>open()\<close> and
  after it, whatever the environment did with the attempts to open: the fallback to
  \<open>_top\<close> changes a local variable only, and the stored target that \<open>getMode\<close> reads
  stays as it was. The witness is a page where the popup is blocked and the window opens
  as \<open>_top\<close>, with no messenger and no heartbeat, and still \<open>POPUP\<close> is reported.
\<close>

theorem getMode_POPUP_after_open:
  "openTarget p \<noteq> ''_top'' \<Longrightarrow>
     getMode p = POPUP \<and> getMode (snd (openInternal (w, p))) = POPUP \<and>
     openTarget (snd (openInternal (w, p))) = openTarget p"
  by (simp add: getMode_def openTarget_openInternal)

theorem getMode_POPUP_after_open_witness:
  "openTarget port0 \<noteq> ''_top'' \<and> getMode port0 = POPUP \<and>
   getMode (snd (openInternal (world_blocked, port0))) = POPUP \<and>
   trace (fst (openInternal (world_blocked, port0))) =
     [WindowOpen ''https://host.example/activity#__WA__=r1'' ''_blank'' (Some ''height=600,width=600''),
      WindowOpen ''https://host.example/activity#__WA__=r1'' ''_top'' None] \<and>
   targetWin (snd (openInternal (world_blocked, port0))) = Some 8 \<and>
   heartbeatInterval (snd (openInternal (world_blocked, port0))) = None \<and>
   messenger (snd (openInternal (world_blocked, port0))) = None"
  using getMode_POPUP_after_open [of port0 world_blocked]
  by (simp add: blocked_open) (simp add: port0_def)

subsection \<open>Redirect results\<close>

text \<open>
  Claim C3. Let the fragment hold, under \<open>__WA_RES__\<close>, a text that parses to
  \<open>{requestId: "r1", code: "ok", data: {a: 1}, origin: "https://x"}\<close>. Then
  \<open>discoverRedirectPort\<close> with the expected id \<open>r1\<close> returns a port whose
  \<open>acceptResult()\<close> promise is fulfilled at once with code \<open>ok\<close>, data \<open>{a: 1}\<close>, mode
  \<open>REDIRECT\<close>, no secure channel, and with the origin verified exactly when the document
  has a referrer whose origin is \<open>https://x\<close>. With any other expected id, and when the
  parameter is absent, it returns \<open>null\<close>.
\<close>

theorem discoverRedirectPort_r1:
  assumes "getQueryParam (utils w) fragment ''__WA_RES__'' = Some js" and "js \<noteq> []"
    and "jsonParse (window w) js = Some response0"
  shows "fst (discoverRedirectPort w fragment ''r1'') =
           Inr (Some \<lparr> rp_code = JStr ''ok'', rp_data = JObj [(''a'', JNum 1)],
                        rp_targetOrigin = JStr ''https://x'',
                        rp_targetOriginVerified =
                          (referrer (window w) \<noteq> [] \<and>
                           getOriginFromUrl (utils w) (referrer (window w)) = ''https://x'') \<rparr>) \<and>
         (\<forall>v. redirect_acceptResult
            \<lparr> rp_code = JStr ''ok'', rp_data = JObj [(''a'', JNum 1)],
              rp_targetOrigin = JStr ''https://x'', rp_targetOriginVerified = v \<rparr> =
            Fulfilled \<lparr> code = JStr ''ok'', data = JObj [(''a'', JNum 1)], mode = REDIRECT,
                        origin = JStr ''https://x'', originVerified = v, secureChannel = False,
                        ok = True, error = JNull \<rparr>) \<and>
         (rid \<noteq> ''r1'' \<longrightarrow> discoverRedirectPort w fragment rid = (Inr None, w)) \<and>
         (getQueryParam (utils w') fragment' ''__WA_RES__'' = None \<longrightarrow>
            discoverRedirectPort w' fragment' rid' = (Inr None, w'))"
proof -
  have props: "js_prop response0 ''requestId'' = JStr ''r1''" "js_prop response0 ''code'' = JStr ''ok''"
    "js_prop response0 ''data'' = JObj [(''a'', JNum 1)]"
    "js_prop response0 ''origin'' = JStr ''https://x''" "truthy response0"
    by (simp_all add: response0_def)
  have 1: "fst (discoverRedirectPort w fragment ''r1'') =
           Inr (Some \<lparr> rp_code = JStr ''ok'', rp_data = JObj [(''a'', JNum 1)],
                        rp_targetOrigin = JStr ''https://x'',
                        rp_targetOriginVerified =
                          (referrer (window w) \<noteq> [] \<and>
                           getOriginFromUrl (utils w) (referrer (window w)) = ''https://x'') \<rparr>)"
    using assms by (auto simp add: discoverRedirectPort_def Let_def props)
  have 2: "redirect_acceptResult
            \<lparr> rp_code = JStr ''ok'', rp_data = JObj [(''a'', JNum 1)],
              rp_targetOrigin = JStr ''https://x'', rp_targetOriginVerified = v \<rparr> =
            Fulfilled \<lparr> code = JStr ''ok'', data = JObj [(''a'', JNum 1)], mode = REDIRECT,
                        origin = JStr ''https://x'', originVerified = v, secureChannel = False,
                        ok = True, error = JNull \<rparr>" for v
    by (simp add: redirect_acceptResult_def resolveResult_def new_ActivityResult_def OK_def FAILED_def)
  have 3: "rid \<noteq> ''r1'' \<Longrightarrow> discoverRedirectPort w fragment rid = (Inr None, w)"
    using assms by (auto simp add: discoverRedirectPort_def props)
  have 4: "getQueryParam (utils w') fragment' ''__WA_RES__'' = None \<Longrightarrow>
            discoverRedirectPort w' fragment' rid' = (Inr None, w')"
    by (simp add: discoverRedirectPort_def)
  show ?thesis using 1 2 3 4 by blast
qed

theorem discoverRedirectPort_r1_witness:
  "getQueryParam (utils world0) fragment0 ''__WA_RES__'' = Some json0 \<and> json0 \<noteq> [] \<and>
   jsonParse (window world0) json0 = Some response0 \<and>
   fst (discoverRedirectPort world0 fragment0 ''r1'') =
     Inr (Some \<lparr> rp_code = JStr ''ok'', rp_data = JObj [(''a'', JNum 1)],
                  rp_targetOrigin = JStr ''https://x'', rp_targetOriginVerified = True \<rparr>) \<and>
   redirect_acceptResult
     \<lparr> rp_code = JStr ''ok'', rp_data = JObj [(''a'', JNum 1)],
       rp_targetOrigin = JStr ''https://x'', rp_targetOriginVerified = True \<rparr> =
     Fulfilled \<lparr> code = JStr ''ok'', data = JObj [(''a'', JNum 1)], mode = REDIRECT,
                 origin = JStr ''https://x'', originVerified = True, secureChannel = False,
                 ok = True, error = JNull \<rparr> \<and>
   ''r2'' \<noteq> ''r1'' \<and> discoverRedirectPort world0 fragment0 ''r2'' = (Inr None, world0) \<and>
   getQueryParam (utils world0) ''#a=b'' ''__WA_RES__'' = None \<and>
   discoverRedirectPort world0 ''#a=b'' ''r1'' = (Inr None, world0)"
proof -
  have h: "getQueryParam (utils world0) fragment0 ''__WA_RES__'' = Some json0" "json0 \<noteq> []"
    "jsonParse (window world0) json0 = Some response0"
    by (simp_all add: world0_def utils0_def window0_def json0_def)
  have n: "getQueryParam (utils world0) ''#a=b'' ''__WA_RES__'' = None"
    by (simp add: world0_def utils0_def fragment0_def)
  have r: "referrer (window world0) \<noteq> [] \<and>
           getOriginFromUrl (utils world0) (referrer (window world0)) = ''https://x''"
    by (simp add: world0_def utils0_def window0_def)
  show ?thesis
    using discoverRedirectPort_r1 [OF h, of "''r2''" world0 "''#a=b''" "''r1''"] h n r by simp
qed


subsection \<open>A failed result\<close>

text \<open>
  Claim C1, evaluated. A popup port whose messenger is connected receives the command
  \<open>result\<close> with the payload \<open>{code: "failed", data: "boom"}\<close>. The promise is
  settled with code \<open>failed\<close> and \<open>ok = false\<close>, but the message of the error is
  \<open>Error: boom\<close>: \<open>handleCommand_\<close> wraps the reason in an \<open>Error\<close>, and the
  constructor of the result builds a second \<open>Error\<close> from the string form of the first.
  Without a reason the message is \<open>Error\<close>, not the empty string.
\<close>

theorem result_failed_error_message:
  "resultPromise (snd (snd (ActivityWindowPort_handleCommand popup_connected (JStr ''result'')
       (JObj [(''code'', JStr ''failed''), (''data'', JStr ''boom'')])))) =
     Fulfilled \<lparr> code = JStr ''failed'', data = JNull, mode = POPUP,
                 origin = JStr ''https://host.example'', originVerified = True,
                 secureChannel = True, ok = False, error = JError ''Error: boom'' \<rparr> \<and>
   resultPromise (snd (snd (ActivityWindowPort_handleCommand popup_connected (JStr ''result'')
       (JObj [(''code'', JStr ''failed'')])))) =
     Fulfilled \<lparr> code = JStr ''failed'', data = JNull, mode = POPUP,
                 origin = JStr ''https://host.example'', originVerified = True,
                 secureChannel = True, ok = False, error = JError ''Error'' \<rparr>"
  by (simp add: popup_connected_def popup0_eval ActivityWindowPort_handleCommand_def js_get_def
      result_def fixture_defs isConnected_def getTargetOrigin_def resolveResult_def
      new_ActivityResult_def new_Error_def js_or_def FAILED_def OK_def sendCommand_def
      getTarget_def getOptionalTarget_def port_disconnect_frame split: prod.splits)

subsection \<open>Messages without the sentinel\<close>

text \<open>
  Claim C2 fails as stated. A message without a sentinel that arrives on the dedicated
  endpoint is dispatched on its \<open>cmd\<close> and reaches the command handler: the
  \<open>onmessage\<close> handler of the endpoint does not look at the sentinel. And on the window
  listener of a messenger that requires its target, such a message makes the messenger
  store the peer window it resolves.
\<close>

theorem no_sentinel_counterexample:
  "js_prop (ev_data event_plain) ''sentinel'' = JUndefined \<and>
   port host_port = Some 5 \<and>
   port_onmessage (world0, host_port) event_plain =
     (Inr (), emit (OnCommand (Callback 0) (JStr ''foo'') JNull) world0, host_port) \<and>
   snd (snd (handleEvent (world0, host0\<lparr>requireTarget := True\<rparr>) event_plain)) =
     host0\<lparr>requireTarget := True, target := Some 1\<rparr>"
  by (simp add: event_plain_def port_onmessage_def Let_def js_and_def js_or_def
      Messenger_handleCommand_def call_onCommand_def host_port_def host_pinned_def host0_def
      new_Messenger_def string_to_int_def trim_ws_def is_ws_def digit_val_def
      handleEvent_def acceptEvent_def source_mismatch_def getOptionalTarget_def)

text \<open>
  Claim C2, amended. A message that reaches the window listener and whose data is falsy
  or whose \<open>sentinel\<close> is not \<open>==\<close> to the sentinel never reaches \<open>handleCommand_\<close>:
  it invokes no handler and sends nothing (the world is unchanged), and the messenger is
  unchanged but for the peer window that a messenger requiring its target resolves and
  stores on first use.
\<close>

theorem handleEvent_without_sentinel:
  assumes "\<not> truthy (ev_data ev) \<or> \<not> js_eq_str (js_prop (ev_data ev) ''sentinel'') SENTINEL"
  shows "acceptEvent m ev = (None, if requireTarget m then snd (getOptionalTarget m) else m) \<and>
         handleEvent (w, m) ev = (Inr (), w, if requireTarget m then snd (getOptionalTarget m) else m) \<and>
         (if requireTarget m then snd (getOptionalTarget m) else m) =
            m\<lparr>target := target (if requireTarget m then snd (getOptionalTarget m) else m)\<rparr> \<and>
         (\<not> requireTarget m \<or> onCommand m = None \<or> target m \<noteq> None \<longrightarrow>
            handleEvent (w, m) ev = (Inr (), w, m))"
proof -
  have a: "acceptEvent m ev = (None, if requireTarget m then snd (getOptionalTarget m) else m)"
    using assms by (auto simp add: acceptEvent_def source_mismatch_def Let_def split: prod.splits)
  have b: "handleEvent (w, m) ev = (Inr (), w, if requireTarget m then snd (getOptionalTarget m) else m)"
    by (simp add: handleEvent_def a)
  have c: "(if requireTarget m then snd (getOptionalTarget m) else m) =
            m\<lparr>target := target (if requireTarget m then snd (getOptionalTarget m) else m)\<rparr>"
    by (simp add: getOptionalTarget_def Let_def)
  have d: "\<not> requireTarget m \<or> onCommand m = None \<or> target m \<noteq> None \<Longrightarrow>
            handleEvent (w, m) ev = (Inr (), w, m)"
    unfolding b by (auto simp add: getOptionalTarget_def Let_def)
  show ?thesis using a b c d by blast
qed


theorem handleEvent_without_sentinel_witness:
  "\<not> js_eq_str (js_prop (ev_data event_plain) ''sentinel'') SENTINEL \<and>
   \<not> requireTarget host_pinned \<and>
   acceptEvent host_pinned event_plain = (None, host_pinned) \<and>
   handleEvent (world0, host_pinned) event_plain = (Inr (), world0, host_pinned)"
proof -
  have h: "\<not> js_eq_str (js_prop (ev_data event_plain) ''sentinel'') SENTINEL"
    by (simp add: event_plain_def)
  have r: "\<not> requireTarget host_pinned"
    by (simp add: host_pinned_def host0_def new_Messenger_def)
  show ?thesis
    using handleEvent_without_sentinel [of event_plain host_pinned world0] h r by simp
qed

subsection \<open>What a messenger keeps of its peer\<close>

lemma peer_kept_refl [simp]: "peer_kept m m"
  by (simp add: peer_kept_def split: option.splits)

lemma peer_kept_trans: "peer_kept m m' \<Longrightarrow> peer_kept m' m'' \<Longrightarrow> peer_kept m m''"
  by (auto simp add: peer_kept_def split: option.splits)

lemma peer_kept_update [simp]:
  "peer_kept m (m'\<lparr>port := p\<rparr>) = peer_kept m m'"
  "peer_kept m (m'\<lparr>acceptsChannel := a\<rparr>) = peer_kept m m'"
  "peer_kept m (m'\<lparr>onCustomMessage := c\<rparr>) = peer_kept m m'"
  "peer_kept m (m'\<lparr>channels := ch\<rparr>) = peer_kept m m'"
  by (auto simp add: peer_kept_def split: option.splits)

lemma getOptionalTarget_kept:
  "getOptionalTarget m = (t, m') \<Longrightarrow> peer_kept m m' \<and> channels m' = channels m \<and> t = target m'"
  by (auto simp add: getOptionalTarget_def Let_def peer_kept_def resolve_target_def
      split: option.splits target_ref.splits if_splits)

lemma getTarget_kept:
  "getTarget m = (r, m') \<Longrightarrow> peer_kept m m' \<and> channels m' = channels m"
  using getOptionalTarget_kept [of m]
  by (cases "getOptionalTarget m") (auto simp add: getTarget_def split: option.splits)

lemma sendCommand_kept:
  "sendCommand (w, m) c pl tr = (r, w', m') \<Longrightarrow> peer_kept m m' \<and> channels m' = channels m"
  using getTarget_kept [of m]
  by (cases "getTarget m") (auto simp add: sendCommand_def split: option.splits sum.splits if_splits)

lemma switchToChannel_kept:
  "switchToChannel (w, m) p = (w', m') \<Longrightarrow> peer_kept m m' \<and> channels m' = channels m"
  by (auto simp add: switchToChannel_def)

lemma sendStartCommand_kept:
  "sendStartCommand (w, m) a = (r, w', m') \<Longrightarrow> peer_kept m m' \<and> channels m' = channels m"
proof (cases "truthy (acceptsChannel m) \<and> hasMessageChannel (window w)")
  case False
  assume "sendStartCommand (w, m) a = (r, w', m')"
  then show ?thesis using False sendCommand_kept by (auto simp add: sendStartCommand_def)
next
  case True
  assume a: "sendStartCommand (w, m) a = (r, w', m')"
  obtain p1 p2 w1 where n: "new_MessageChannel w = (p1, p2, w1)" by (cases "new_MessageChannel w")
  obtain r2 w2 m2 where s: "sendCommand (w1, m) ''start'' a [p2] = (r2, w2, m2)"
    by (cases "sendCommand (w1, m) ''start'' a [p2]")
  have k: "peer_kept m m2 \<and> channels m2 = channels m" using sendCommand_kept [OF s] .
  show ?thesis
  proof (cases r2)
    case (Inl e)
    then show ?thesis using a True n s k by (simp add: sendStartCommand_def)
  next
    case (Inr u)
    then have "switchToChannel (w2, m2) p1 = (w', m')"
      using a True n s by (simp add: sendStartCommand_def)
    from switchToChannel_kept [OF this] k show ?thesis
      by (auto intro: peer_kept_trans)
  qed
qed


lemma set_channel_kept [simp]: "peer_kept m (set_channel m' k h) = peer_kept m m'"
  by (simp add: set_channel_def)

lemma getChannelObj_kept:
  "getChannelObj (w, m) k = (obj, w', m') \<Longrightarrow> peer_kept m m'"
  by (auto simp add: getChannelObj_def Let_def split: option.splits if_splits)

text \<open>A name that resolves to an inherited member: the table is made, nothing else changes.\<close>

lemma getChannelObj_member:
  assumes "getChannelObj (w, m) k = (Member k', w1, m1)"
  shows "k' = k" and "w1 = w"
    and "m1 = m\<lparr>channels := Some (case channels m of None \<Rightarrow> [] | Some c \<Rightarrow> c)\<rparr>"
    and "channel_holder m k = None"
  using assms
  by (auto simp add: getChannelObj_def Let_def channel_holder_def split: option.splits if_splits)

lemma channels_made:
  "channel_holder (m\<lparr>channels := Some (case channels m of None \<Rightarrow> [] | Some c \<Rightarrow> c)\<rparr>) k =
     channel_holder m k"
  "channel_names (m\<lparr>channels := Some (case channels m of None \<Rightarrow> [] | Some c \<Rightarrow> c)\<rparr>) =
     channel_names m"
  "channel_promise (m\<lparr>channels := Some (case channels m of None \<Rightarrow> [] | Some c \<Rightarrow> c)\<rparr>) k =
     channel_promise m k"
  by (simp_all add: channel_holder_def channel_names_def channel_promise_def split: option.splits)

lemma startChannel_on_member:
  assumes g: "getChannelObj (w, m) (js_to_string (js_or n (JStr []))) = (Member k, w1, m1)"
    and st: "startChannel (w, m) n = (r, w', m')"
  shows "peer_kept m1 m'" and "channels m' = channels m1" and "r \<noteq> Inr (Some q)"
proof -
  define name where "name = js_or n (JStr [])"
  have e: "startChannel (w, m) n =
     (case fst (member_ports w1 k) of
        None \<Rightarrow>
          if \<not> hasMessageChannel (window w1) then (Inl TypeError, w1, m1)
          else (Inl TypeError,
                set_member_ports k (Some (nextId w1), Some (Suc (nextId w1)))
                  (w1\<lparr>nextId := nextId w1 + 2\<rparr>), m1)
      | Some q1 \<Rightarrow>
          (case snd (member_ports w1 k) of
             Some q2 \<Rightarrow>
               (case sendCommand (w1, m1) ''cnset'' (JObj [(''name'', name)]) [q2] of
                  (Inl e, s') \<Rightarrow> (Inl e, s')
                | (Inr u, w3, m3) \<Rightarrow>
                    (Inr None, set_member_ports k (Some q1, None) w3, m3))
           | None \<Rightarrow> (Inr None, w1, m1)))"
    unfolding startChannel_def Let_def name_def [symmetric] g [unfolded name_def [symmetric]]
      prod.case channel_obj.case new_MessageChannel_def ..
  have A: "peer_kept m1 m' \<and> channels m' = channels m1 \<and> r \<noteq> Inr (Some q)"
  proof (cases "fst (member_ports w1 k)")
    case None
    then show ?thesis using st e by (auto split: if_splits)
  next
    case (Some q1)
    show ?thesis
    proof (cases "snd (member_ports w1 k)")
      case None
      then show ?thesis using st e Some by auto
    next
      case (Some q2)
      obtain r3 w3 m3 where s: "sendCommand (w1, m1) ''cnset'' (JObj [(''name'', name)]) [q2] = (r3, w3, m3)"
        by (cases "sendCommand (w1, m1) ''cnset'' (JObj [(''name'', name)]) [q2]")
      show ?thesis using st e \<open>fst (member_ports w1 k) = Some q1\<close> Some s sendCommand_kept [OF s]
        by (cases r3) auto
    qed
  qed
  show "peer_kept m1 m'" and "channels m' = channels m1" and "r \<noteq> Inr (Some q)"
    using A by simp_all
qed

lemma askChannel_on_member:
  assumes g: "getChannelObj (w, m) (js_to_string (js_or n (JStr []))) = (Member k, w1, m1)"
    and st: "askChannel (w, m) n = (r, w', m')"
  shows "peer_kept m1 m'" and "channels m' = channels m1" and "r \<noteq> Inr (Some q)"
proof -
  define name where "name = js_or n (JStr [])"
  obtain r3 w3 m3 where s: "sendCommand (w1, m1) ''cnget'' (JObj [(''name'', name)]) [] = (r3, w3, m3)"
    by (cases "sendCommand (w1, m1) ''cnget'' (JObj [(''name'', name)]) []")
  have e: "askChannel (w, m) n =
     (if fst (member_ports w1 k) = None then
        (case r3 of Inl e \<Rightarrow> (Inl e, w3, m3) | Inr u \<Rightarrow> (Inr None, w3, m3))
      else (Inr None, w1, m1))"
    unfolding askChannel_def Let_def name_def [symmetric] g [unfolded name_def [symmetric]]
      prod.case channel_obj.case s
    by (cases r3) auto
  have A: "peer_kept m1 m' \<and> channels m' = channels m1 \<and> r \<noteq> Inr (Some q)"
    using st e sendCommand_kept [OF s] by (cases r3; cases "fst (member_ports w1 k) = None") auto
  show "peer_kept m1 m'" and "channels m' = channels m1" and "r \<noteq> Inr (Some q)"
    using A by simp_all
qed

lemma receiveChannel_on_member:
  assumes "getChannelObj (w, m) (js_to_string n) = (Member k, w1, m1)"
    and "receiveChannel (w, m) n p = (r, w', m')"
  shows "m' = m1" and "r = Inl TypeError"
  using assms by (simp_all add: receiveChannel_def Let_def)

lemma startChannel_kept:
  assumes "startChannel (w, m) n = (r, w', m')"
  shows "peer_kept m m'"
proof -
  define name where "name = js_or n (JStr [])"
  define key where "key = js_to_string name"
  obtain obj w1 m1 where g: "getChannelObj (w, m) key = (obj, w1, m1)"
    by (cases "getChannelObj (w, m) key")
  have k1: "peer_kept m m1" using getChannelObj_kept [OF g] .
  show ?thesis
  proof (cases obj)
    case (Member k)
    from startChannel_on_member(1) [OF g [unfolded key_def name_def Member] assms] k1
    show ?thesis by (auto intro: peer_kept_trans)
  next
    case (Holder h)
    note g = g [unfolded Holder]
    define hw where "hw = (if port1 h = None
                   then (case new_MessageChannel w1 of (p1, p2, w2) \<Rightarrow>
                           (resolver (h\<lparr>port1 := Some p1, port2 := Some p2\<rparr>) (Some p1), w2))
                   else (h, w1))"
    obtain h2 w2 where hw2: "hw = (h2, w2)" by (cases hw)
    have e: "startChannel (w, m) n =
        (if port1 h = None \<and> \<not> hasMessageChannel (window w1) then (Inl TypeError, w1, m1)
          else (case port2 h2 of
                    Some p2 \<Rightarrow>
                      (case sendCommand (w2, set_channel m1 key h2) ''cnset''
                              (JObj [(''name'', name)]) [p2] of
                         (Inl e, s') \<Rightarrow> (Inl e, s')
                       | (Inr u, w3, m3) \<Rightarrow>
                           (Inr (Some (promise h2)), w3, set_channel m3 key (h2\<lparr>port2 := None\<rparr>)))
                  | None \<Rightarrow> (Inr (Some (promise h2)), w2, set_channel m1 key h2)))"
      unfolding startChannel_def Let_def name_def [symmetric] key_def [symmetric] g prod.case
        channel_obj.case hw_def [symmetric] hw2 by simp
    show ?thesis
    proof (cases "port1 h = None \<and> \<not> hasMessageChannel (window w1)")
      case True
      then show ?thesis using assms e k1 by simp
    next
      case False
      show ?thesis
      proof (cases "port2 h2")
        case None
        then show ?thesis using assms e k1 False by auto
      next
        case (Some p2)
        obtain r3 w3 m3 where s: "sendCommand (w2, set_channel m1 key h2) ''cnset''
                              (JObj [(''name'', name)]) [p2] = (r3, w3, m3)"
          by (cases "sendCommand (w2, set_channel m1 key h2) ''cnset'' (JObj [(''name'', name)]) [p2]")
        have "peer_kept (set_channel m1 key h2) m3" using sendCommand_kept [OF s] by simp
        then have k3: "peer_kept m m3"
          using k1 by (meson peer_kept_trans set_channel_kept)
        show ?thesis using assms e False Some s k3 by (cases r3) auto
      qed
    qed
  qed
qed

lemma askChannel_kept:
  assumes "askChannel (w, m) n = (r, w', m')"
  shows "peer_kept m m'"
proof -
  define name where "name = js_or n (JStr [])"
  define key where "key = js_to_string name"
  obtain obj w1 m1 where g: "getChannelObj (w, m) key = (obj, w1, m1)"
    by (cases "getChannelObj (w, m) key")
  have k1: "peer_kept m m1" using getChannelObj_kept [OF g] .
  show ?thesis
  proof (cases obj)
    case (Member k)
    from askChannel_on_member(1) [OF g [unfolded key_def name_def Member] assms] k1
    show ?thesis by (auto intro: peer_kept_trans)
  next
    case (Holder h)
    note g = g [unfolded Holder]
    obtain r3 w3 m3 where s: "sendCommand (w1, m1) ''cnget'' (JObj [(''name'', name)]) [] = (r3, w3, m3)"
      by (cases "sendCommand (w1, m1) ''cnget'' (JObj [(''name'', name)]) []")
    have k3: "peer_kept m m3" using sendCommand_kept [OF s] k1 by (auto intro: peer_kept_trans)
    have e: "askChannel (w, m) n =
        (if port1 h = None
         then (case r3 of Inl e \<Rightarrow> (Inl e, w3, m3) | Inr u \<Rightarrow> (Inr (Some (promise h)), w3, m3))
         else (Inr (Some (promise h)), w1, m1))"
      unfolding askChannel_def Let_def name_def [symmetric] key_def [symmetric] g prod.case
        channel_obj.case s
      by (cases r3) auto
    show ?thesis using assms e k1 k3 by (cases r3; cases "port1 h = None") auto
  qed
qed

lemma receiveChannel_kept:
  assumes "receiveChannel (w, m) n p = (r, w', m')"
  shows "peer_kept m m'"
proof -
  obtain obj w1 m1 where g: "getChannelObj (w, m) (js_to_string n) = (obj, w1, m1)"
    by (cases "getChannelObj (w, m) (js_to_string n)")
  have k1: "peer_kept m m1" using getChannelObj_kept [OF g] .
  show ?thesis using assms g k1 by (cases obj) (auto simp add: receiveChannel_def Let_def)
qed

lemma call_onCommand_kept:
  "call_onCommand (w, m) c pl = (r, w', m') \<Longrightarrow> m' = m"
  by (auto simp add: call_onCommand_def split: option.splits)

lemma Messenger_handleCommand_kept:
  assumes "Messenger_handleCommand (w, m) c pl ev = (r, w', m')"
  shows "peer_kept m m'"
proof -
  consider (connect) "js_eq_str c ''connect''"
    | (start) "\<not> js_eq_str c ''connect''" "js_eq_str c ''start''"
    | (msg) "\<not> js_eq_str c ''connect''" "\<not> js_eq_str c ''start''" "js_eq_str c ''msg''"
    | (cnget) "\<not> js_eq_str c ''connect''" "\<not> js_eq_str c ''start''" "\<not> js_eq_str c ''msg''"
        "js_eq_str c ''cnget''"
    | (cnset) "\<not> js_eq_str c ''connect''" "\<not> js_eq_str c ''start''" "\<not> js_eq_str c ''msg''"
        "\<not> js_eq_str c ''cnget''" "js_eq_str c ''cnset''"
    | (other) "\<not> js_eq_str c ''connect''" "\<not> js_eq_str c ''start''" "\<not> js_eq_str c ''msg''"
        "\<not> js_eq_str c ''cnget''" "\<not> js_eq_str c ''cnset''"
    by blast
  then show ?thesis
  proof cases
    case connect
    then show ?thesis using assms
      by (auto simp add: Messenger_handleCommand_def Let_def dest!: call_onCommand_kept)
  next
    case start
    obtain w1 m1 where sw: "(case ev_ports ev of p # ps \<Rightarrow> switchToChannel (w, m) p | [] \<Rightarrow> (w, m)) = (w1, m1)"
      by (cases "(case ev_ports ev of p # ps \<Rightarrow> switchToChannel (w, m) p | [] \<Rightarrow> (w, m))")
    have "peer_kept m m1" using sw switchToChannel_kept [of w m]
      by (cases "ev_ports ev") auto
    then show ?thesis using assms start sw
      by (auto simp add: Messenger_handleCommand_def dest!: call_onCommand_kept)
  next
    case msg
    then show ?thesis using assms
      by (auto simp add: Messenger_handleCommand_def split: option.splits if_splits)
  next
    case cnget
    show ?thesis
    proof (cases "js_get pl ''name''")
      case (Inl e)
      then show ?thesis using assms cnget by (simp add: Messenger_handleCommand_def)
    next
      case (Inr name)
      obtain r1 w1 m1 where s: "startChannel (w, m) name = (r1, w1, m1)"
        by (cases "startChannel (w, m) name")
      show ?thesis using assms cnget Inr s startChannel_kept [OF s]
        by (cases r1) (auto simp add: Messenger_handleCommand_def)
    qed
  next
    case cnset
    show ?thesis
    proof (cases "js_get pl ''name''")
      case (Inl e)
      then show ?thesis using assms cnset by (simp add: Messenger_handleCommand_def)
    next
      case (Inr name)
      then show ?thesis using assms cnset
        by (auto simp add: Messenger_handleCommand_def dest: receiveChannel_kept)
    qed
  next
    case other
    then show ?thesis using assms
      by (auto simp add: Messenger_handleCommand_def dest!: call_onCommand_kept)
  qed
qed

lemma peer_resolved_kept: "peer_kept m m' \<Longrightarrow> peer_resolved m \<Longrightarrow> peer_resolved m'"
  by (auto simp add: peer_kept_def peer_resolved_def split: if_splits)

lemma origin_kept: "peer_kept m m' \<Longrightarrow> targetOrigin m = Some orig \<Longrightarrow> targetOrigin m' = Some orig"
  by (simp add: peer_kept_def)

lemma getOptionalTarget_resolves:
  "onCommand m \<noteq> None \<Longrightarrow> requireTarget m \<Longrightarrow> peer_resolved (snd (getOptionalTarget m))"
  by (auto simp add: getOptionalTarget_def Let_def peer_resolved_def resolve_target_def
      split: target_ref.splits)

lemma getOptionalTarget_resolved:
  "peer_resolved m \<Longrightarrow> requireTarget m \<Longrightarrow> getOptionalTarget m = (target m, m)"
  by (auto simp add: getOptionalTarget_def Let_def peer_resolved_def resolve_target_def
      split: target_ref.splits if_splits)

lemma getOptionalTarget_kept': "peer_kept m (snd (getOptionalTarget m))"
  using getOptionalTarget_kept [of m] by (cases "getOptionalTarget m") simp

lemma getOptionalTarget_origin: "targetOrigin (snd (getOptionalTarget m)) = targetOrigin m"
  by (simp add: getOptionalTarget_def Let_def)

lemma source_mismatch_kept: "peer_kept m (snd (source_mismatch m ev))"
  using getOptionalTarget_kept' [of m] by (simp add: source_mismatch_def split_beta)

lemma pin_origin_kept: "peer_kept m (pin_origin m ev c)"
proof -
  define m2 where "m2 = (if targetOrigin m = None \<and> js_eq_str c ''start''
                             then m\<lparr>targetOrigin := Some (ev_origin ev)\<rparr> else m)"
  have k2: "peer_kept m m2"
    by (auto simp add: m2_def peer_kept_def split: option.splits)
  have k3a: "peer_kept m (snd (getOptionalTarget m2))"
    using getOptionalTarget_kept' [of m2] k2 by (auto intro: peer_kept_trans)
  have k3b: "targetOrigin m2 = None \<Longrightarrow>
     peer_kept m ((snd (getOptionalTarget m2))\<lparr>targetOrigin := Some (ev_origin ev)\<rparr>)"
    using k3a k2 by (auto simp add: peer_kept_def m2_def split: option.splits if_splits)
  have "pin_origin m ev c = m2 \<or> pin_origin m ev c = snd (getOptionalTarget m2) \<or>
        (targetOrigin m2 = None \<and>
         pin_origin m ev c = (snd (getOptionalTarget m2))\<lparr>targetOrigin := Some (ev_origin ev)\<rparr>)"
    unfolding pin_origin_def Let_def m2_def [symmetric] by (simp add: split_beta)
  then show ?thesis using k2 k3a k3b by auto
qed

lemma acceptEvent_result:
  "snd (acceptEvent m ev) = snd (source_mismatch m ev) \<or>
   snd (acceptEvent m ev) =
     pin_origin (snd (source_mismatch m ev)) ev (js_prop (ev_data ev) ''cmd'')"
  by (cases "source_mismatch m ev") (simp add: acceptEvent_def Let_def)

lemma acceptEvent_kept: "peer_kept m (snd (acceptEvent m ev))"
  using acceptEvent_result [of m ev] source_mismatch_kept [of m ev]
    pin_origin_kept [of "snd (source_mismatch m ev)" ev "js_prop (ev_data ev) ''cmd''"]
  by (auto intro: peer_kept_trans)

lemma source_mismatch_resolves:
  "onCommand m \<noteq> None \<Longrightarrow> peer_resolved (snd (source_mismatch m ev))"
  using getOptionalTarget_resolves [of m]
  by (auto simp add: source_mismatch_def split_beta peer_resolved_def)

lemma acceptEvent_resolves:
  assumes "onCommand m \<noteq> None"
  shows "peer_resolved (snd (acceptEvent m ev))"
  using acceptEvent_result [of m ev] source_mismatch_resolves [OF assms, of ev]
    pin_origin_kept [of "snd (source_mismatch m ev)" ev "js_prop (ev_data ev) ''cmd''"]
  by (auto intro: peer_resolved_kept)

lemma acceptEvent_discards:
  assumes "targetOrigin m = Some orig" and "ev_origin ev \<noteq> orig" and "peer_resolved m"
  shows "acceptEvent m ev = (None, m)"
proof -
  have g: "snd (source_mismatch m ev) = m"
    using getOptionalTarget_resolved [OF assms(3)] by (simp add: source_mismatch_def)
  have p: "pin_origin m ev c = m" for c
    using assms(1) by (simp add: pin_origin_def)
  obtain mm where sm: "source_mismatch m ev = (mm, m)"
    using g by (cases "source_mismatch m ev") simp
  show ?thesis
    using assms(1,2) by (simp add: acceptEvent_def sm Let_def p)
qed


lemma handleEvent_kept:
  assumes "handleEvent (w, m) ev = (r, w', m')"
  shows "peer_kept m m'"
proof -
  obtain x m1 where a: "acceptEvent m ev = (x, m1)" by (cases "acceptEvent m ev")
  have k1: "peer_kept m m1" using acceptEvent_kept [of m ev] a by simp
  show ?thesis
  proof (cases x)
    case None
    then show ?thesis using assms a k1 by (simp add: handleEvent_def)
  next
    case (Some cp)
    obtain c pl where cp: "cp = (c, pl)" by (cases cp)
    have "Messenger_handleCommand (w, m1) c pl ev = (r, w', m')"
      using assms a Some cp by (simp add: handleEvent_def)
    from Messenger_handleCommand_kept [OF this] k1 show ?thesis
      by (auto intro: peer_kept_trans)
  qed
qed

lemma handleEvent_resolves:
  assumes "onCommand m \<noteq> None" and "handleEvent (w, m) ev = (r, w', m')"
  shows "peer_resolved m'"
proof -
  obtain x m1 where a: "acceptEvent m ev = (x, m1)" by (cases "acceptEvent m ev")
  have r1: "peer_resolved m1" using acceptEvent_resolves [OF assms(1), of ev] a by simp
  show ?thesis
  proof (cases x)
    case None
    then show ?thesis using assms a r1 by (simp add: handleEvent_def)
  next
    case (Some cp)
    obtain c pl where cp: "cp = (c, pl)" by (cases cp)
    have "Messenger_handleCommand (w, m1) c pl ev = (r, w', m')"
      using assms a Some cp by (simp add: handleEvent_def)
    from Messenger_handleCommand_kept [OF this] r1 show ?thesis
      by (auto intro: peer_resolved_kept)
  qed
qed

lemma port_onmessage_kept:
  "port_onmessage (w, m) ev = (r, w', m') \<Longrightarrow> peer_kept m m'"
  by (auto simp add: port_onmessage_def Let_def split: if_splits
      dest: Messenger_handleCommand_kept)

lemma perform_kept: "peer_kept (snd s) (snd (perform a s))"
proof -
  obtain w m where s: "s = (w, m)" by (cases s)
  show ?thesis
  proof (cases a)
    case (Receive ev)
    then show ?thesis using handleEvent_kept [of w m ev] s
      by (cases "handleEvent (w, m) ev") auto
  next
    case (PortReceive ev)
    then show ?thesis using port_onmessage_kept [of w m ev] s
      by (cases "port_onmessage (w, m) ev") auto
  next
    case (SendCommand c pl tr)
    then show ?thesis using sendCommand_kept [of w m c pl tr] s
      by (cases "sendCommand (w, m) c pl tr") auto
  next
    case SendConnectCommand
    then show ?thesis using s
      sendCommand_kept [of w m "''connect''"
        "JObj [(''acceptsChannel'', JBool (isIeBrowser (utils w) \<or> isEdgeBrowser (utils w)))]" "[]"]
      by (cases "sendConnectCommand (w, m)") (auto simp add: sendConnectCommand_def)
  next
    case (SendStartCommand x)
    then show ?thesis using sendStartCommand_kept [of w m x] s
      by (cases "sendStartCommand (w, m) x") auto
  next
    case (CustomMessage pl)
    then show ?thesis using sendCommand_kept [of w m "''msg''" pl "[]"] s
      by (cases "customMessage (w, m) pl") (auto simp add: customMessage_def)
  next
    case (OnCustomMessage cb)
    then show ?thesis using s by (simp add: Messenger_onCustomMessage_def)
  next
    case (StartChannel n)
    then show ?thesis using startChannel_kept [of w m n] s
      by (cases "startChannel (w, m) n") auto
  next
    case (AskChannel n)
    then show ?thesis using askChannel_kept [of w m n] s
      by (cases "askChannel (w, m) n") auto
  qed
qed

lemma session_run_kept: "peer_kept (snd s) (snd (session_run acts s))"
proof (induction acts arbitrary: s)
  case Nil
  show ?case by simp
next
  case (Cons a acts)
  show ?case using perform_kept [of s a] Cons.IH [of "perform a s"]
    by (auto intro: peer_kept_trans)
qed

lemma start_pins:
  "handleEvent (world0, host0) event_start =
     (Inr (), emit (OnCommand (Callback 0) (JStr ''start'') JNull) world0,
      host0\<lparr>targetOrigin := Some ''https://client.example''\<rparr>)"
  by (simp add: handleEvent_def acceptEvent_def source_mismatch_def pin_origin_def host0_def
      new_Messenger_def event_start_def envelope_def SENTINEL_def js_or_def Let_def
      Messenger_handleCommand_def call_onCommand_def getOptionalTarget_def)

subsection \<open>Origin pinning\<close>

text \<open>
  Claim C4. A listening messenger whose peer origin is unknown handles a message that
  pins the origin (a \<open>start\<close> command, or a message from the peer window). Whatever the
  session goes on to do, a later message on the window listener whose origin differs from
  the pinned one returns before \<open>handleCommand_\<close>, leaves the messenger and the world
  exactly as they were, and the pinned origin is still the same.
\<close>

theorem pinned_origin_discards:
  assumes "onCommand m0 \<noteq> None" and "targetOrigin m0 = None"
    and "handleEvent (w0, m0) ev0 = (r, w1, m1)" and "targetOrigin m1 = Some orig"
    and "session_run acts (w1, m1) = (w, m)" and "ev_origin ev \<noteq> orig"
  shows "acceptEvent m ev = (None, m) \<and> handleEvent (w, m) ev = (Inr (), w, m) \<and>
         targetOrigin m = Some orig"
proof -
  have r1: "peer_resolved m1" using handleEvent_resolves [OF assms(1,3)] .
  have k: "peer_kept m1 m" using session_run_kept [of "(w1, m1)" acts] assms(5) by simp
  have o: "targetOrigin m = Some orig" using origin_kept [OF k assms(4)] .
  have r: "peer_resolved m" using peer_resolved_kept [OF k r1] .
  have a: "acceptEvent m ev = (None, m)" using acceptEvent_discards [OF o assms(6) r] .
  show ?thesis using a o by (simp add: handleEvent_def)
qed

theorem pinned_origin_discards_witness:
  "onCommand host0 \<noteq> None \<and> targetOrigin host0 = None \<and>
   targetOrigin (snd (snd (handleEvent (world0, host0) event_start))) = Some ''https://client.example'' \<and>
   ev_origin event_foreign \<noteq> ''https://client.example'' \<and>
   handleEvent (session_run [SendCommand ''ready'' JNull [], Receive event_plain]
                  (snd (handleEvent (world0, host0) event_start))) event_foreign =
     (Inr (), session_run [SendCommand ''ready'' JNull [], Receive event_plain]
                  (snd (handleEvent (world0, host0) event_start))) \<and>
   targetOrigin (snd (session_run [SendCommand ''ready'' JNull [], Receive event_plain]
                  (snd (handleEvent (world0, host0) event_start)))) = Some ''https://client.example''"
proof -
  have 1: "onCommand host0 \<noteq> None" "targetOrigin host0 = None"
    by (simp_all add: host0_def new_Messenger_def)
  have 2: "handleEvent (world0, host0) event_start =
     (Inr (), emit (OnCommand (Callback 0) (JStr ''start'') JNull) world0,
      host0\<lparr>targetOrigin := Some ''https://client.example''\<rparr>)"
    by (rule start_pins)
  have 3: "targetOrigin (host0\<lparr>targetOrigin := Some ''https://client.example''\<rparr>) =
     Some ''https://client.example''" by simp
  have 4: "ev_origin event_foreign \<noteq> ''https://client.example''"
    by (simp add: event_foreign_def)
  obtain w m where 5: "session_run [SendCommand ''ready'' JNull [], Receive event_plain]
      (emit (OnCommand (Callback 0) (JStr ''start'') JNull) world0,
       host0\<lparr>targetOrigin := Some ''https://client.example''\<rparr>) = (w, m)"
    by (cases "session_run [SendCommand ''ready'' JNull [], Receive event_plain]
      (emit (OnCommand (Callback 0) (JStr ''start'') JNull) world0,
       host0\<lparr>targetOrigin := Some ''https://client.example''\<rparr>)")
  show ?thesis
    unfolding 2 snd_conv 5
    using pinned_origin_discards [OF 1 2 3 5 4] 1 4 by simp
qed

subsection \<open>The promise of a sub-channel\<close>

lemma map_of_put_channel:
  "map_of (put_channel k h chs) k' = (if k' = k then Some h else map_of chs k')"
  by (induction chs) auto

lemma channel_promise_set_channel:
  "channel_promise (set_channel m k h) k' =
     (if k' = k then Some (promise h) else channel_promise m k')"
  by (auto simp add: channel_promise_def set_channel_def map_of_put_channel split: option.splits)

lemma channel_promise_cong:
  "channels m' = channels m \<Longrightarrow> channel_promise m' k = channel_promise m k"
  by (simp add: channel_promise_def)

lemma getChannelObj_promise:
  assumes "getChannelObj (w, m) k = (Holder h, w', m')"
  shows "channel_promise m' k = Some (promise h)"
    and "channel_promise m k' = Some p \<Longrightarrow> channel_promise m' k' = Some p"
    and "channel_promise m k = None \<or> channel_promise m k = Some (promise h)"
  using assms
  by (auto simp add: getChannelObj_def Let_def channel_promise_def map_of_put_channel
      split: option.splits if_splits)

lemma promise_resolver [simp]: "promise (resolver h p) = promise h"
  by (simp add: resolver_def)

lemma startChannel_unfold:
  assumes g: "getChannelObj (w, m) (js_to_string (js_or n (JStr []))) = (Holder h, w1, m1)"
  defines "h2 \<equiv> (if port1 h = None
                   then resolver (h\<lparr>port1 := Some (nextId w1), port2 := Some (Suc (nextId w1))\<rparr>)
                          (Some (nextId w1))
                   else h)"
    and "w2 \<equiv> (if port1 h = None then w1\<lparr>nextId := Suc (Suc (nextId w1))\<rparr> else w1)"
  shows "startChannel (w, m) n =
      (if port1 h = None \<and> \<not> hasMessageChannel (window w1) then (Inl TypeError, w1, m1)
        else (case port2 h2 of
                  Some p2 \<Rightarrow>
                    (case sendCommand (w2, set_channel m1 (js_to_string (js_or n (JStr []))) h2) ''cnset''
                            (JObj [(''name'', js_or n (JStr []))]) [p2] of
                       (Inl e, s') \<Rightarrow> (Inl e, s')
                     | (Inr u, w3, m3) \<Rightarrow>
                         (Inr (Some (promise h2)), w3,
                          set_channel m3 (js_to_string (js_or n (JStr []))) (h2\<lparr>port2 := None\<rparr>)))
                | None \<Rightarrow>
                    (Inr (Some (promise h2)), w2,
                     set_channel m1 (js_to_string (js_or n (JStr []))) h2)))"
proof (cases "port1 h = None")
  case True
  then show ?thesis
    unfolding startChannel_def Let_def g prod.case channel_obj.case h2_def w2_def
      new_MessageChannel_def
    by simp
next
  case False
  then obtain y where y: "port1 h = Some y" by auto
  show ?thesis
    unfolding startChannel_def Let_def g prod.case channel_obj.case h2_def w2_def
    by (simp add: y)
qed

lemma startChannel_promise:
  assumes "startChannel (w, m) n = (r, w', m')"
  shows "channel_promise m k = Some p \<Longrightarrow> channel_promise m' k = Some p"
    and "r = Inr (Some q) \<Longrightarrow> channel_promise m' (js_to_string (js_or n (JStr []))) = Some q"
    and "r = Inr (Some q) \<Longrightarrow> channel_promise m (js_to_string (js_or n (JStr []))) = Some p \<Longrightarrow> q = p"
proof -
  define key where "key = js_to_string (js_or n (JStr []))"
  obtain obj w1 m1 where g: "getChannelObj (w, m) key = (obj, w1, m1)"
    by (cases "getChannelObj (w, m) key")
  have A: "(channel_promise m k = Some p \<longrightarrow> channel_promise m' k = Some p) \<and>
           (r = Inr (Some q) \<longrightarrow>
              channel_promise m' key = Some q \<and>
              (channel_promise m key = None \<or> channel_promise m key = Some q))"
  proof (cases obj)
    case (Member k0)
    note gm = g [unfolded Member key_def]
    have "channel_promise m' k = channel_promise m1 k"
      using channel_promise_cong [OF startChannel_on_member(2) [OF gm assms]] .
    also have "\<dots> = channel_promise m k"
      unfolding getChannelObj_member(3) [OF gm] by (rule channels_made)
    finally show ?thesis using startChannel_on_member(3) [OF gm assms, of q] by simp
  next
    case (Holder h)
    note g = g [unfolded Holder]
    note gp = getChannelObj_promise [OF g]
    define h2 where "h2 = (if port1 h = None
                     then resolver (h\<lparr>port1 := Some (nextId w1), port2 := Some (Suc (nextId w1))\<rparr>)
                            (Some (nextId w1))
                     else h)"
    define w2 where "w2 = (if port1 h = None then w1\<lparr>nextId := Suc (Suc (nextId w1))\<rparr> else w1)"
    have ph: "promise h2 = promise h" by (simp add: h2_def)
    note e = startChannel_unfold [OF g [unfolded key_def], folded key_def h2_def w2_def]
    have B: "(channel_promise m k = Some p \<longrightarrow> channel_promise m' k = Some p) \<and>
             (r = Inr (Some q) \<longrightarrow> channel_promise m' key = Some q \<and> q = promise h)"
    proof (cases "port1 h = None \<and> \<not> hasMessageChannel (window w1)")
      case True
      then show ?thesis using assms e gp(2) [of k p] by auto
    next
      case False
      show ?thesis
      proof (cases "port2 h2")
        case None
        then show ?thesis using assms e gp(2) [of k p] gp(1) False ph
          by (auto simp add: channel_promise_set_channel)
      next
        case (Some p2)
        obtain r3 w3 m3 where s: "sendCommand (w2, set_channel m1 key h2) ''cnset''
                              (JObj [(''name'', js_or n (JStr []))]) [p2] = (r3, w3, m3)"
          by (cases "sendCommand (w2, set_channel m1 key h2) ''cnset'' (JObj [(''name'', js_or n (JStr []))]) [p2]")
        have c3: "channels m3 = channels (set_channel m1 key h2)" using sendCommand_kept [OF s] by simp
        have p3: "channel_promise m3 k' = (if k' = key then Some (promise h) else channel_promise m1 k')" for k'
          using channel_promise_cong [OF c3] by (simp add: channel_promise_set_channel ph)
        show ?thesis
          using assms e False Some s gp(2) [of k p] gp(1) ph p3
          by (cases r3) (auto simp add: channel_promise_set_channel)
      qed
    qed
    show ?thesis using B gp(3) by auto
  qed
  show "channel_promise m k = Some p \<Longrightarrow> channel_promise m' k = Some p" using A by simp
  show "r = Inr (Some q) \<Longrightarrow> channel_promise m' (js_to_string (js_or n (JStr []))) = Some q"
    using A by (simp add: key_def)
  show "r = Inr (Some q) \<Longrightarrow> channel_promise m (js_to_string (js_or n (JStr []))) = Some p \<Longrightarrow> q = p"
    using A by (auto simp add: key_def)
qed

lemma askChannel_unfold:
  assumes g: "getChannelObj (w, m) (js_to_string (js_or n (JStr []))) = (Holder h, w1, m1)"
  shows "askChannel (w, m) n =
      (if port1 h = None then
          (case sendCommand (w1, m1) ''cnget'' (JObj [(''name'', js_or n (JStr []))]) [] of
             (Inl e, s') \<Rightarrow> (Inl e, s')
           | (Inr u, s') \<Rightarrow> (Inr (Some (promise h)), s'))
        else (Inr (Some (promise h)), w1, m1))"
  unfolding askChannel_def Let_def g prod.case channel_obj.case by simp

lemma askChannel_promise:
  assumes "askChannel (w, m) n = (r, w', m')"
  shows "channel_promise m k = Some p \<Longrightarrow> channel_promise m' k = Some p"
    and "r = Inr (Some q) \<Longrightarrow> channel_promise m' (js_to_string (js_or n (JStr []))) = Some q"
    and "r = Inr (Some q) \<Longrightarrow> channel_promise m (js_to_string (js_or n (JStr []))) = Some p \<Longrightarrow> q = p"
proof -
  define key where "key = js_to_string (js_or n (JStr []))"
  obtain obj w1 m1 where g: "getChannelObj (w, m) key = (obj, w1, m1)"
    by (cases "getChannelObj (w, m) key")
  have A: "(channel_promise m k = Some p \<longrightarrow> channel_promise m' k = Some p) \<and>
           (r = Inr (Some q) \<longrightarrow>
              channel_promise m' key = Some q \<and>
              (channel_promise m key = None \<or> channel_promise m key = Some q))"
  proof (cases obj)
    case (Member k0)
    note gm = g [unfolded Member key_def]
    have "channel_promise m' k = channel_promise m1 k"
      using channel_promise_cong [OF askChannel_on_member(2) [OF gm assms]] .
    also have "\<dots> = channel_promise m k"
      unfolding getChannelObj_member(3) [OF gm] by (rule channels_made)
    finally show ?thesis using askChannel_on_member(3) [OF gm assms, of q] by simp
  next
    case (Holder h)
    note g = g [unfolded Holder]
    note gp = getChannelObj_promise [OF g]
    note e = askChannel_unfold [OF g [unfolded key_def], folded key_def]
    obtain r3 w3 m3 where s: "sendCommand (w1, m1) ''cnget'' (JObj [(''name'', js_or n (JStr []))]) [] = (r3, w3, m3)"
      by (cases "sendCommand (w1, m1) ''cnget'' (JObj [(''name'', js_or n (JStr []))]) []")
    have c3: "channels m3 = channels m1" using sendCommand_kept [OF s] by simp
    have B: "(channel_promise m k = Some p \<longrightarrow> channel_promise m' k = Some p) \<and>
             (r = Inr (Some q) \<longrightarrow> channel_promise m' key = Some q \<and> q = promise h)"
      using assms e s gp(2) [of k p] gp(1) channel_promise_cong [OF c3]
      by (cases r3; cases "port1 h = None") auto
    show ?thesis using B gp(3) by auto
  qed
  show "channel_promise m k = Some p \<Longrightarrow> channel_promise m' k = Some p" using A by simp
  show "r = Inr (Some q) \<Longrightarrow> channel_promise m' (js_to_string (js_or n (JStr []))) = Some q"
    using A by (simp add: key_def)
  show "r = Inr (Some q) \<Longrightarrow> channel_promise m (js_to_string (js_or n (JStr []))) = Some p \<Longrightarrow> q = p"
    using A by (auto simp add: key_def)
qed

lemma receiveChannel_promise:
  assumes "receiveChannel (w, m) n pt = (r, w', m')"
  shows "channel_promise m k = Some p \<Longrightarrow> channel_promise m' k = Some p"
proof -
  obtain obj w1 m1 where g: "getChannelObj (w, m) (js_to_string n) = (obj, w1, m1)"
    by (cases "getChannelObj (w, m) (js_to_string n)")
  show "channel_promise m k = Some p \<Longrightarrow> channel_promise m' k = Some p"
  proof (cases obj)
    case (Member k0)
    note gm = g [unfolded Member]
    have "m' = m\<lparr>channels := Some (case channels m of None \<Rightarrow> [] | Some c \<Rightarrow> c)\<rparr>"
      using receiveChannel_on_member(1) [OF gm assms] getChannelObj_member(3) [OF gm] by simp
    then show "channel_promise m k = Some p \<Longrightarrow> channel_promise m' k = Some p"
      by (simp add: channels_made)
  next
    case (Holder h)
    note g = g [unfolded Holder]
    note gp = getChannelObj_promise [OF g]
    have "m' = set_channel m1 (js_to_string n) (resolver (h\<lparr>port1 := pt\<rparr>) pt)"
      using assms by (simp add: receiveChannel_def Let_def g)
    then show "channel_promise m k = Some p \<Longrightarrow> channel_promise m' k = Some p"
      using gp(2) [of k p] gp(1) by (auto simp add: channel_promise_set_channel)
  qed
qed


lemma getOptionalTarget_channels: "channels (snd (getOptionalTarget m)) = channels m"
  by (simp add: getOptionalTarget_def Let_def)

lemma acceptEvent_channels: "channels (snd (acceptEvent m ev)) = channels m"
proof -
  have 1: "channels (snd (source_mismatch m ev)) = channels m"
    by (simp add: source_mismatch_def split_beta getOptionalTarget_channels)
  have 2: "channels (pin_origin m1 ev c) = channels m1" for m1 c
    by (simp add: pin_origin_def Let_def split_beta getOptionalTarget_channels)
  show ?thesis using acceptEvent_result [of m ev] 1 2 by auto
qed

lemma Messenger_handleCommand_promise:
  assumes "Messenger_handleCommand (w, m) c pl ev = (r, w', m')"
    and "channel_promise m k = Some p"
  shows "channel_promise m' k = Some p"
proof -
  consider (connect) "js_eq_str c ''connect''"
    | (start) "\<not> js_eq_str c ''connect''" "js_eq_str c ''start''"
    | (msg) "\<not> js_eq_str c ''connect''" "\<not> js_eq_str c ''start''" "js_eq_str c ''msg''"
    | (cnget) "\<not> js_eq_str c ''connect''" "\<not> js_eq_str c ''start''" "\<not> js_eq_str c ''msg''"
        "js_eq_str c ''cnget''"
    | (cnset) "\<not> js_eq_str c ''connect''" "\<not> js_eq_str c ''start''" "\<not> js_eq_str c ''msg''"
        "\<not> js_eq_str c ''cnget''" "js_eq_str c ''cnset''"
    | (other) "\<not> js_eq_str c ''connect''" "\<not> js_eq_str c ''start''" "\<not> js_eq_str c ''msg''"
        "\<not> js_eq_str c ''cnget''" "\<not> js_eq_str c ''cnset''"
    by blast
  then show ?thesis
  proof cases
    case connect
    then have "channels m' = channels m" using assms(1)
      by (auto simp add: Messenger_handleCommand_def Let_def dest!: call_onCommand_kept)
    then show ?thesis using assms(2) by (simp add: channel_promise_def)
  next
    case start
    obtain w1 m1 where sw: "(case ev_ports ev of p # ps \<Rightarrow> switchToChannel (w, m) p | [] \<Rightarrow> (w, m)) = (w1, m1)"
      by (cases "(case ev_ports ev of p # ps \<Rightarrow> switchToChannel (w, m) p | [] \<Rightarrow> (w, m))")
    have "channels m1 = channels m" using sw switchToChannel_kept [of w m]
      by (cases "ev_ports ev") auto
    moreover have "m' = m1" using assms(1) start sw
      by (auto simp add: Messenger_handleCommand_def dest!: call_onCommand_kept)
    ultimately show ?thesis using assms(2) by (simp add: channel_promise_def)
  next
    case msg
    then have "m' = m" using assms(1)
      by (auto simp add: Messenger_handleCommand_def split: option.splits if_splits)
    then show ?thesis using assms(2) by simp
  next
    case cnget
    show ?thesis
    proof (cases "js_get pl ''name''")
      case (Inl e)
      then show ?thesis using assms cnget by (simp add: Messenger_handleCommand_def)
    next
      case (Inr name)
      obtain r1 w1 m1 where s: "startChannel (w, m) name = (r1, w1, m1)"
        by (cases "startChannel (w, m) name")
      have "m' = m1" using assms(1) cnget Inr s
        by (cases r1) (auto simp add: Messenger_handleCommand_def)
      then show ?thesis using startChannel_promise(1) [OF s assms(2)] by simp
    qed
  next
    case cnset
    show ?thesis
    proof (cases "js_get pl ''name''")
      case (Inl e)
      then show ?thesis using assms cnset by (simp add: Messenger_handleCommand_def)
    next
      case (Inr name)
      then show ?thesis using assms cnset
        by (auto simp add: Messenger_handleCommand_def dest: receiveChannel_promise)
    qed
  next
    case other
    then have "m' = m" using assms(1)
      by (auto simp add: Messenger_handleCommand_def dest!: call_onCommand_kept)
    then show ?thesis using assms(2) by simp
  qed
qed

lemma perform_promise:
  assumes "channel_promise (snd s) k = Some p"
  shows "channel_promise (snd (perform a s)) k = Some p"
proof -
  obtain w m where s: "s = (w, m)" by (cases s)
  have cp: "channel_promise m k = Some p" using assms s by simp
  have same: "channels m' = channels m \<Longrightarrow> channel_promise m' k = Some p" for m'
    using cp by (simp add: channel_promise_def)
  show ?thesis
  proof (cases a)
    case (Receive ev)
    obtain x m1 where a1: "acceptEvent m ev = (x, m1)" by (cases "acceptEvent m ev")
    have c1: "channel_promise m1 k = Some p"
      using acceptEvent_channels [of m ev] a1 same by simp
    show ?thesis
    proof (cases x)
      case None
      then show ?thesis using Receive s a1 c1 by (simp add: handleEvent_def)
    next
      case (Some cpl)
      obtain c pl where cpl: "cpl = (c, pl)" by (cases cpl)
      obtain r w' m' where h: "Messenger_handleCommand (w, m1) c pl ev = (r, w', m')"
        by (cases "Messenger_handleCommand (w, m1) c pl ev")
      show ?thesis using Receive s a1 Some cpl h Messenger_handleCommand_promise [OF h c1]
        by (simp add: handleEvent_def)
    qed
  next
    case (PortReceive ev)
    show ?thesis
    proof (cases "truthy (js_and (ev_data ev) (js_prop (ev_data ev) ''cmd''))")
      case False
      then show ?thesis using PortReceive s cp by (simp add: port_onmessage_def Let_def)
    next
      case True
      obtain r w' m' where h: "Messenger_handleCommand (w, m)
          (js_and (ev_data ev) (js_prop (ev_data ev) ''cmd''))
          (js_or (js_and (ev_data ev) (js_prop (ev_data ev) ''payload'')) JNull) ev = (r, w', m')"
        by (cases "Messenger_handleCommand (w, m)
          (js_and (ev_data ev) (js_prop (ev_data ev) ''cmd''))
          (js_or (js_and (ev_data ev) (js_prop (ev_data ev) ''payload'')) JNull) ev")
      show ?thesis using PortReceive s True h Messenger_handleCommand_promise [OF h cp]
        by (simp add: port_onmessage_def Let_def)
    qed
  next
    case (SendCommand c pl tr)
    then show ?thesis using sendCommand_kept [of w m c pl tr] s same
      by (cases "sendCommand (w, m) c pl tr") auto
  next
    case SendConnectCommand
    then show ?thesis using s same
      sendCommand_kept [of w m "''connect''"
        "JObj [(''acceptsChannel'', JBool (isIeBrowser (utils w) \<or> isEdgeBrowser (utils w)))]" "[]"]
      by (cases "sendConnectCommand (w, m)") (auto simp add: sendConnectCommand_def)
  next
    case (SendStartCommand x)
    then show ?thesis using sendStartCommand_kept [of w m x] s same
      by (cases "sendStartCommand (w, m) x") auto
  next
    case (CustomMessage pl)
    then show ?thesis using sendCommand_kept [of w m "''msg''" pl "[]"] s same
      by (cases "customMessage (w, m) pl") (auto simp add: customMessage_def)
  next
    case (OnCustomMessage cb)
    then show ?thesis using s same by (simp add: Messenger_onCustomMessage_def)
  next
    case (StartChannel n)
    then show ?thesis using startChannel_promise(1) [of w m n _ _ _ k p] s cp
      by (cases "startChannel (w, m) n") auto
  next
    case (AskChannel n)
    then show ?thesis using askChannel_promise(1) [of w m n _ _ _ k p] s cp
      by (cases "askChannel (w, m) n") auto
  qed
qed

lemma session_run_promise:
  "channel_promise (snd s) k = Some p \<Longrightarrow> channel_promise (snd (session_run acts s)) k = Some p"
proof (induction acts arbitrary: s)
  case Nil
  then show ?case by simp
next
  case (Cons a acts)
  have "channel_promise (snd (perform a s)) k = Some p"
    using perform_promise [OF Cons.prems] .
  from Cons.IH [OF this] show ?case by simp
qed

lemma channel_call_promise:
  assumes "channel_call a (w, m) n = (Inr (Some q), w', m')"
  shows "channel_promise m' (js_to_string (js_or n (JStr []))) = Some q"
    and "channel_promise m (js_to_string (js_or n (JStr []))) = Some p \<Longrightarrow> q = p"
proof -
  show "channel_promise m' (js_to_string (js_or n (JStr []))) = Some q"
  proof (cases a)
    case True
    then have "askChannel (w, m) n = (Inr (Some q), w', m')" using assms by (simp add: channel_call_def)
    from askChannel_promise(2) [OF this] show ?thesis by simp
  next
    case False
    then have "startChannel (w, m) n = (Inr (Some q), w', m')" using assms by (simp add: channel_call_def)
    from startChannel_promise(2) [OF this] show ?thesis by simp
  qed
  show "channel_promise m (js_to_string (js_or n (JStr []))) = Some p \<Longrightarrow> q = p"
  proof (cases a)
    case True
    assume c: "channel_promise m (js_to_string (js_or n (JStr []))) = Some p"
    from True have "askChannel (w, m) n = (Inr (Some q), w', m')" using assms by (simp add: channel_call_def)
    from askChannel_promise(3) [OF this _ c] show ?thesis by simp
  next
    case False
    assume c: "channel_promise m (js_to_string (js_or n (JStr []))) = Some p"
    from False have "startChannel (w, m) n = (Inr (Some q), w', m')" using assms by (simp add: channel_call_def)
    from startChannel_promise(3) [OF this _ c] show ?thesis by simp
  qed
qed

lemma promise_of_calls:
  assumes "channel_call a1 s n = (Inr (Some p), s1)" and "session_run acts s1 = s2"
    and "channel_call a2 s2 n = (Inr (Some q), s3)"
  shows "q = p"
proof -
  obtain w m where s: "s = (w, m)" by (cases s)
  obtain w1 m1 where s1: "s1 = (w1, m1)" by (cases s1)
  obtain w2 m2 where s2: "s2 = (w2, m2)" by (cases s2)
  obtain w3 m3 where s3: "s3 = (w3, m3)" by (cases s3)
  have 1: "channel_promise m1 (js_to_string (js_or n (JStr []))) = Some p"
    using channel_call_promise(1) [of a1 w m n p w1 m1] assms(1) s s1 by simp
  have 2: "channel_promise m2 (js_to_string (js_or n (JStr []))) = Some p"
    using session_run_promise [of s1 _ p acts] 1 s1 s2 assms(2) by simp
  show ?thesis
    using channel_call_promise(2) [of a2 w2 m2 n q w3 m3 p] assms(3) s2 s3 2 by simp
qed






lemma getChannelObj_inherited:
  "channel_holder m k = None \<Longrightarrow> k \<in> set Object_prototype_members \<Longrightarrow>
     getChannelObj (w, m) k =
       (Member k, w, m\<lparr>channels := Some (case channels m of None \<Rightarrow> [] | Some c \<Rightarrow> c)\<rparr>)"
  by (auto simp add: channel_holder_def getChannelObj_def Let_def split: option.splits)




text \<open>A name that resolves to an inherited member never yields a promise.\<close>

lemma inherited_name_no_promise:
  assumes "channel_holder m (js_to_string (js_or n (JStr []))) = None"
    and "js_to_string (js_or n (JStr [])) \<in> set Object_prototype_members"
  shows "fst (channel_call a (w, m) n) \<noteq> Inr (Some q)"
proof -
  note g = getChannelObj_inherited [OF assms, of w]
  obtain r w' m' where c: "channel_call a (w, m) n = (r, w', m')"
    by (cases "channel_call a (w, m) n")
  have "r \<noteq> Inr (Some q)"
  proof (cases a)
    case True
    then have "askChannel (w, m) n = (r, w', m')" using c by (simp add: channel_call_def)
    from askChannel_on_member(3) [OF g this] show ?thesis .
  next
    case False
    then have "startChannel (w, m) n = (r, w', m')" using c by (simp add: channel_call_def)
    from startChannel_on_member(3) [OF g this] show ?thesis .
  qed
  then show ?thesis using c by simp
qed





subsection \<open>A holder that keeps its local endpoint\<close>













subsection \<open>Calling for a sub-channel twice\<close>



text \<open>
  A name that every object inherits: \<open>startChannel("constructor")\<close> sets the two endpoints
  on the runtime's \<open>Object\<close> and throws, and \<open>askChannel("constructor")\<close> sends \<open>cnget\<close>
  and returns \<open>undefined\<close>. Neither makes a holder.
\<close>

lemma start_constructor:
  "startChannel (world0, host_pinned) (JStr ''constructor'') =
     (Inl TypeError,
      world0\<lparr>nextId := 2, memberPorts := [(''constructor'', Some 0, Some 1)]\<rparr>,
      host_pinned\<lparr>channels := Some []\<rparr>)"
  "askChannel (world0, host_pinned) (JStr ''constructor'') =
     (Inr None,
      world0\<lparr>trace := [WindowPostMessage 1 (envelope ''cnget'' (JObj [(''name'', JStr ''constructor'')]))
                           ''https://client.example'' []]\<rparr>,
      host_pinned\<lparr>channels := Some []\<rparr>)"
  by (simp_all add: startChannel_def askChannel_def getChannelObj_def js_or_def
      new_MessageChannel_def member_ports_def set_member_ports_def
      sendCommand_def getTarget_def getOptionalTarget_def getTargetOrigin_def
      emit_def world0_def window0_def host_pinned_def host0_def new_Messenger_def
      Object_prototype_members_def Let_def)









subsection \<open>Closing, cancelling and the grace delay\<close>
















lemma find_timeout_filter:
  "j \<noteq> i \<Longrightarrow> find_timeout i (filter (\<lambda>e. fst e \<noteq> j) ts) = find_timeout i ts"
  by (induction ts) auto




lemma canceled_result: "canceled (p\<lparr>resultPromise :=
   Fulfilled (new_ActivityResult (JStr CANCELED) JNull md orig a b)\<rparr>)"
  by (simp add: canceled_def new_ActivityResult_def CANCELED_def OK_def)

lemma canceled_cong: "resultPromise p' = resultPromise p \<Longrightarrow> canceled p' = canceled p"
  by (simp add: canceled_def)














text \<open>
  A poll that the host asked for and that is still outstanding when the heartbeat makes
  the first closed observation (at 500) observes the closed window again (at 600) and
  schedules a second cancel with no delay: the promise is settled long before 3500.
\<close>

lemma outstanding_check_cancels_early:
  "timeouts (fst (port_run [Elapse 400, Command (JStr ''check'') JNull, WindowCloses, Elapse 100,
       Heartbeat 1] popup0)) = [(2, 600, CheckTask), (3, 3500, CancelTask)] \<and>
   now (fst (port_run [Elapse 400, Command (JStr ''check'') JNull, WindowCloses, Elapse 100,
       Heartbeat 1, Elapse 100, Timeout 2, Timeout 4] popup0)) = 600 \<and>
   canceled (snd (port_run [Elapse 400, Command (JStr ''check'') JNull, WindowCloses, Elapse 100,
       Heartbeat 1, Elapse 100, Timeout 2, Timeout 4] popup0))"
  by code_simp



end
